theory Spec2Isabelle
  imports Main
begin

section \<open>The browser-universal bridge\<close>

text \<open>
  A shallow embedding of the provider that drives an already open chat page over a
  remote-control channel: prompt extraction, tab selection, platform detection, selector
  merging, prompt injection, the two waits, response extraction and the synthesis of the
  event stream. The functions keep the names of the TypeScript source.
\<close>

subsection \<open>Strings\<close>

text \<open>
  A JavaScript string is modelled as \<open>string\<close>: a \<open>char\<close> is a code unit below 256, so
  the texts considered are those of the first 256 code points. \<open>String.prototype.trim\<close>
  strips white space and line terminators from both ends; among these code points they are
  TAB, LF, VT, FF, CR, SPACE and the no-break space U+00A0. A string is truthy exactly when
  it is not empty.
\<close>

definition isWhiteSpace :: "char \<Rightarrow> bool" where
  "isWhiteSpace c = (of_char c \<in> {9, 10, 11, 12, 13, 32, 160 :: nat})"

definition trim :: "string \<Rightarrow> string" where
  "trim s = rev (dropWhile isWhiteSpace (rev (dropWhile isWhiteSpace s)))"

text \<open>\<open>Array.prototype.join\<close> with a separator.\<close>

fun join :: "string \<Rightarrow> string list \<Rightarrow> string" where
  "join sep [] = []"
| "join sep [x] = x"
| "join sep (x # y # ys) = x @ sep @ join sep (y # ys)"

definition toLower :: "char \<Rightarrow> char" where
  "toLower c = (let n = (of_char c :: nat) in if 65 \<le> n \<and> n \<le> 90 then char_of (n + 32) else c)"

fun startsWith :: "string \<Rightarrow> string \<Rightarrow> bool" where
  "startsWith [] s = True"
| "startsWith (p # ps) [] = False"
| "startsWith (p # ps) (c # cs) = (p = c \<and> startsWith ps cs)"

fun containsText :: "string \<Rightarrow> string \<Rightarrow> bool" where
  "containsText p [] = startsWith p []"
| "containsText p (c # cs) = (startsWith p (c # cs) \<or> containsText p cs)"

subsection \<open>Regular expressions\<close>

text \<open>
  The patterns written in the source are case-insensitive alternatives of literal texts
  (\<open>/chatgpt\.com|chat\.openai\.com/i\<close>): such a pattern matches a string that contains one
  of the texts, letter case apart. A pattern supplied by the caller or compiled from the
  environment is any predicate on strings. \<open>test\<close> is \<open>RegExp.prototype.test\<close> on a
  pattern without the global or sticky flag, where it keeps no state between calls.
\<close>

datatype regexp = ILiterals "string list" | Pattern "string \<Rightarrow> bool"

fun test :: "regexp \<Rightarrow> string \<Rightarrow> bool" where
  "test (ILiterals ls) s = list_ex (\<lambda>l. containsText (map toLower l) (map toLower s)) ls"
| "test (Pattern f) s = f s"

subsection \<open>Selector tables and platform profiles\<close>

record SelectorStrategy =
  input :: "string list"
  stop :: "string list"
  send :: "string list"
  assistant :: "string list"
  modelLabel :: "string list"
  domHints :: "string list"

definition INPUT_SELECTORS :: "string list" where
  \<open>INPUT_SELECTORS =
    [''#prompt-textarea'',
     ''textarea[placeholder*="Message"]'',
     ''textarea[placeholder*="Send"]'',
     ''textarea'',
     ''div[contenteditable="true"][role="textbox"]'',
     ''div[role="textbox"][contenteditable="true"]'',
     ''[contenteditable="true"]'']\<close>

definition STOP_SELECTORS :: "string list" where
  \<open>STOP_SELECTORS =
    [''button[aria-label*="Stop"]'',
     ''button[title*="Stop"]'',
     ''button:has(svg[aria-label*="Stop"])'',
     ''button:has(svg[data-icon*="stop"])'',
     ''button:has(svg[data-testid*="stop"])'']\<close>

definition SEND_SELECTORS :: "string list" where
  \<open>SEND_SELECTORS =
    [''button[aria-label*="Send"]'',
     ''button[title*="Send"]'',
     ''button[data-testid*="send"]'',
     ''button:has(svg[aria-label*="Send"])'',
     ''button:has(svg[data-icon*="send"])'']\<close>

definition ASSISTANT_SELECTORS :: "string list" where
  \<open>ASSISTANT_SELECTORS =
    [''[data-message-author-role="assistant"]'', ''.markdown'', ''.prose'', ''article'']\<close>

definition MODEL_LABEL_SELECTORS :: "string list" where
  \<open>MODEL_LABEL_SELECTORS =
    [''button[data-testid*="model"]'',
     ''button[aria-haspopup="listbox"]'',
     ''[data-testid*="model"]'',
     ''div[role="button"][aria-haspopup="listbox"]'']\<close>

definition BASE_SELECTORS :: SelectorStrategy where
  "BASE_SELECTORS =
    \<lparr>input = INPUT_SELECTORS, stop = STOP_SELECTORS, send = SEND_SELECTORS,
     assistant = ASSISTANT_SELECTORS, modelLabel = MODEL_LABEL_SELECTORS, domHints = []\<rparr>"

text \<open>\<open>Partial<SelectorStrategy>\<close>: every category may be missing.\<close>

record PartialSelectors =
  inputO :: "string list option"
  stopO :: "string list option"
  sendO :: "string list option"
  assistantO :: "string list option"
  modelLabelO :: "string list option"
  domHintsO :: "string list option"

datatype PlatformId = Chatgpt | Claude | Gemini | Unknown

record PlatformProfile =
  ident :: PlatformId
  urlHints :: "regexp list"
  selectors :: PartialSelectors

definition CHATGPT_PROFILE :: PlatformProfile where
  \<open>CHATGPT_PROFILE =
    \<lparr>ident = Chatgpt,
     urlHints = [ILiterals [''chatgpt.com''], ILiterals [''chat.openai.com'']],
     selectors =
       \<lparr>inputO = Some [''textarea#prompt-textarea'',
                       ''div[contenteditable="true"][data-testid="prompt-textarea"]''],
        stopO = Some [''button[aria-label*="Stop"]'', ''button[data-testid*="stop"]''],
        sendO = Some [''button[aria-label*="Send"]'', ''button[data-testid*="send"]''],
        assistantO = Some [''[data-message-author-role="assistant"]'', ''.markdown'', ''.prose''],
        modelLabelO = Some [''button[data-testid="model-switcher"]'',
                            ''button[aria-label*="Model"]'',
                            ''button[aria-haspopup="listbox"]''],
        domHintsO = Some [''[data-message-author-role="assistant"]'', ''#prompt-textarea'']\<rparr>\<rparr>\<close>

definition CLAUDE_PROFILE :: PlatformProfile where
  \<open>CLAUDE_PROFILE =
    \<lparr>ident = Claude,
     urlHints = [ILiterals [''claude.ai'']],
     selectors =
       \<lparr>inputO = Some [''div[contenteditable="true"][role="textbox"]'', ''textarea''],
        stopO = Some [''button[aria-label*="Stop"]'', ''button:has(svg[data-icon*="stop"])''],
        sendO = Some [''button[aria-label*="Send"]'', ''button[type="submit"]''],
        assistantO = Some [''div[data-testid="chat-messages"]'', ''.prose'', ''article''],
        modelLabelO = Some [''button[data-testid*="model"]'',
                            ''button[aria-label*="Model"]'',
                            ''div[role="button"][aria-haspopup="listbox"]''],
        domHintsO = Some [''[data-testid="chat-messages"]'', ''button[aria-label*="Model"]'']\<rparr>\<rparr>\<close>

definition GEMINI_PROFILE :: PlatformProfile where
  \<open>GEMINI_PROFILE =
    \<lparr>ident = Gemini,
     urlHints = [ILiterals [''gemini.google.com''], ILiterals [''bard.google.com'']],
     selectors =
       \<lparr>inputO = Some [''textarea[aria-label*="Enter a prompt"]'',
                       ''textarea[placeholder*="Enter"]''],
        stopO = Some [''button[aria-label*="Stop"]'', ''button:has(svg[data-icon*="stop"])''],
        sendO = Some [''button[aria-label*="Send"]'', ''button[aria-label*="Submit"]'',
                      ''button[type="submit"]''],
        assistantO = Some [''response-container'', ''.markdown'', ''.prose'', ''article''],
        modelLabelO = Some [''button[aria-label*="Model"]'',
                            ''button[aria-haspopup="listbox"]'',
                            ''[data-test-id*="model"]''],
        domHintsO = Some [''body:has([data-test-id*="gemini"])'', ''div[aria-label*="Gemini"]'']\<rparr>\<rparr>\<close>

definition PLATFORM_PROFILES :: "PlatformProfile list" where
  "PLATFORM_PROFILES = [CHATGPT_PROFILE, CLAUDE_PROFILE, GEMINI_PROFILE]"

definition UNKNOWN_PROFILE :: PlatformProfile where
  "UNKNOWN_PROFILE =
    \<lparr>ident = Unknown, urlHints = [],
     selectors = \<lparr>inputO = None, stopO = None, sendO = None, assistantO = None,
                  modelLabelO = None, domHintsO = None\<rparr>\<rparr>"

subsection \<open>Merging selector lists\<close>

text \<open>
  \<open>Array.from(new Set(xs))\<close>: a \<open>Set\<close> keeps its members in insertion order and ignores the
  insertion of a member it already has.
\<close>

definition setAdd :: "'a list \<Rightarrow> 'a \<Rightarrow> 'a list" where
  "setAdd acc x = (if x \<in> set acc then acc else acc @ [x])"

definition arrayFromSet :: "'a list \<Rightarrow> 'a list" where
  "arrayFromSet xs = foldl setAdd [] xs"

definition mergeSelectors :: "string list \<Rightarrow> string list option \<Rightarrow> string list" where
  "mergeSelectors base specific =
    (case specific of
       None \<Rightarrow> base
     | Some sp \<Rightarrow> if length sp = 0 then base else arrayFromSet (sp @ base))"

definition resolveSelectorStrategy :: "PlatformProfile \<Rightarrow> SelectorStrategy" where
  "resolveSelectorStrategy profile =
    \<lparr>input = mergeSelectors INPUT_SELECTORS (inputO (selectors profile)),
     stop = mergeSelectors STOP_SELECTORS (stopO (selectors profile)),
     send = mergeSelectors SEND_SELECTORS (sendO (selectors profile)),
     assistant = mergeSelectors ASSISTANT_SELECTORS (assistantO (selectors profile)),
     modelLabel = mergeSelectors MODEL_LABEL_SELECTORS (modelLabelO (selectors profile)),
     domHints = mergeSelectors (domHints BASE_SELECTORS) (domHintsO (selectors profile))\<rparr>"

text \<open>
  The merge as the specification words it: the override rules in their authored order,
  followed by the generic rules, with exact duplicates removed keeping the first occurrence.
\<close>

fun keepFirst :: "'a list \<Rightarrow> 'a list" where
  "keepFirst [] = []"
| "keepFirst (x # xs) = x # keepFirst (filter (\<lambda>y. y \<noteq> x) xs)"

definition specMerge :: "string list \<Rightarrow> string list \<Rightarrow> string list" where
  "specMerge overrides generic = keepFirst (overrides @ generic)"

subsection \<open>Conversations and the latest user prompt\<close>

datatype Role = UserRole | AssistantRole | ToolResultRole

text \<open>A content item is a text part or a part of another type (an image, a tool call).\<close>

datatype ContentItem = TextItem string | OtherItem

datatype Content = Plain string | Parts "ContentItem list"

record Message =
  role :: Role
  content :: Content

record Context =
  messages :: "Message list"

fun isTextItem :: "ContentItem \<Rightarrow> bool" where
  "isTextItem (TextItem t) = True"
| "isTextItem OtherItem = False"

fun itemText :: "ContentItem \<Rightarrow> string" where
  "itemText (TextItem t) = t"
| "itemText OtherItem = []"

text \<open>
  The loop of \<open>extractLatestUserPrompt\<close> runs from the last message to the first;
  \<open>scanMessages\<close> is its body on the messages in that order.
\<close>

fun scanMessages :: "Message list \<Rightarrow> string" where
  "scanMessages [] = []"
| "scanMessages (m # ms) =
    (if role m \<noteq> UserRole then scanMessages ms
     else case content m of
       Plain s \<Rightarrow> trim s
     | Parts items \<Rightarrow>
         (let text = trim (join [CHR 0x0A] (map itemText (filter isTextItem items)))
          in if text \<noteq> [] then text else scanMessages ms))"

definition extractLatestUserPrompt :: "Context \<Rightarrow> string" where
  "extractLatestUserPrompt context = scanMessages (rev (messages context))"

subsection \<open>Assistant messages and the event stream\<close>

record Model =
  model_id :: string
  api :: string
  provider :: string

text \<open>The two stop reasons the bridge gives a message.\<close>

datatype StopReason = Stop | Error

record Cost =
  cost_input :: nat
  cost_output :: nat
  cost_cacheRead :: nat
  cost_cacheWrite :: nat
  cost_total :: nat

record Usage =
  usage_input :: nat
  usage_output :: nat
  usage_cacheRead :: nat
  usage_cacheWrite :: nat
  usage_totalTokens :: nat
  usage_cost :: Cost

record AssistantMessage =
  msg_role :: Role
  msg_content :: "ContentItem list"
  msg_api :: string
  msg_provider :: string
  msg_model :: string
  msg_usage :: Usage
  stopReason :: StopReason
  timestamp :: nat

definition zeroUsage :: Usage where
  "zeroUsage =
    \<lparr>usage_input = 0, usage_output = 0, usage_cacheRead = 0, usage_cacheWrite = 0,
     usage_totalTokens = 0,
     usage_cost = \<lparr>cost_input = 0, cost_output = 0, cost_cacheRead = 0, cost_cacheWrite = 0,
                   cost_total = 0\<rparr>\<rparr>"

text \<open>
  \<open>buildAssistantMessage\<close>; the optional arguments are options, the default of the stop
  reason is \<open>Stop\<close>, and the last argument is the reading of the clock (\<open>Date.now()\<close>).
\<close>

definition buildAssistantMessage ::
  "string \<Rightarrow> Model \<Rightarrow> string option \<Rightarrow> StopReason option \<Rightarrow> nat \<Rightarrow> AssistantMessage" where
  "buildAssistantMessage text model detectedModel reason now =
    (let resolvedModel =
       (case detectedModel of
          None \<Rightarrow> model_id model
        | Some d \<Rightarrow> if trim d \<noteq> [] then trim d else model_id model)
     in \<lparr>msg_role = AssistantRole,
         msg_content = [TextItem text],
         msg_api = api model,
         msg_provider = provider model,
         msg_model = resolvedModel,
         msg_usage = zeroUsage,
         stopReason = (case reason of None \<Rightarrow> Stop | Some r \<Rightarrow> r),
         timestamp = now\<rparr>)"

datatype Event =
    StartEvent AssistantMessage
  | TextStart nat AssistantMessage
  | TextDelta nat string AssistantMessage
  | TextEnd nat string AssistantMessage
  | DoneEvent StopReason AssistantMessage
  | ErrorEvent StopReason AssistantMessage

subsection \<open>Pages and their documents\<close>

text \<open>
  A document is observed only through \<open>querySelectorAll\<close>: for each selector the matching
  elements in document order. Of an element the code reads the text content, the computed
  style (\<open>display\<close>, \<open>visibility\<close>) and whether it has an offset parent.
\<close>

record ComputedStyle =
  display :: string
  visibility :: string

record Element =
  textContent :: "string option"
  computedStyle :: "ComputedStyle option"
  offsetParent :: bool

type_synonym Document = "string \<Rightarrow> Element list"

definition querySelectorAll :: "Document \<Rightarrow> string \<Rightarrow> Element list" where
  "querySelectorAll doc selector = doc selector"

definition querySelector :: "Document \<Rightarrow> string \<Rightarrow> Element option" where
  "querySelector doc selector =
    (case querySelectorAll doc selector of [] \<Rightarrow> None | el # rest \<Rightarrow> Some el)"

text \<open>
  The calls on a located element that go over the channel, with their arguments: the
  click with its timeout, the probe for a text area, \<open>fill\<close> with its text and optional
  timeout, \<open>type\<close> with its text and delay, and \<open>press\<close> with its key.
\<close>

datatype Action =
    Click nat
  | EvaluateIsTextArea
  | Fill string "nat option"
  | TypeText string nat
  | Press string

text \<open>
  A page as the bridge sees it. The probes that the source guards (\<open>title\<close>, the focus
  probe, \<open>isVisible\<close>) answer with a value or reject with a diagnostic, and so does every
  action on a located element. \<open>document\<close> is the document before the prompt is injected;
  \<open>responseFrames t\<close> and \<open>completionFrames t\<close> are the documents that the two waits
  observe, poll after poll, until their timeout \<open>t\<close> expires; \<open>timeoutDiagnostic t\<close> is the
  message of the failure a wait raises then, and \<open>thrownDiagnostic\<close> the message of the
  failure it raises when the function it polls throws; \<open>finalDocument\<close> is the document
  read after the waits.
\<close>

record Page =
  isClosed :: bool
  url :: string
  title :: "string + string"
  hasFocus :: "string + bool"
  document :: Document
  locatorIsVisible :: "string \<Rightarrow> string + bool"
  locatorIsTextArea :: "string \<Rightarrow> bool"
  actionFailure :: "string \<Rightarrow> Action \<Rightarrow> string option"
  responseFrames :: "nat \<Rightarrow> Document list"
  completionFrames :: "nat \<Rightarrow> Document list"
  timeoutDiagnostic :: "nat \<Rightarrow> string"
  thrownDiagnostic :: string
  finalDocument :: Document

subsection \<open>Tab selection\<close>

fun resolveFocusedPage :: "Page list \<Rightarrow> Page option" where
  "resolveFocusedPage [] = None"
| "resolveFocusedPage (page # rest) =
    (if isClosed page then resolveFocusedPage rest
     else case hasFocus page of
       Inr True \<Rightarrow> Some page
     | Inr False \<Rightarrow> resolveFocusedPage rest
     | Inl e \<Rightarrow> resolveFocusedPage rest)"

fun resolvePageByRegex :: "Page list \<Rightarrow> regexp \<Rightarrow> Page option" where
  "resolvePageByRegex [] regex = None"
| "resolvePageByRegex (page # rest) regex =
    (if isClosed page then resolvePageByRegex rest regex
     else if test regex (url page) then Some page
     else resolvePageByRegex rest regex)"

subsection \<open>Platform detection\<close>

text \<open>\<open>v ?? []\<close> on a selector list that may be missing.\<close>

definition orEmpty :: "string list option \<Rightarrow> string list" where
  "orEmpty v = (case v of None \<Rightarrow> [] | Some xs \<Rightarrow> xs)"

definition matchesDomHints :: "Document \<Rightarrow> string list \<Rightarrow> bool" where
  "matchesDomHints doc selectorList =
    (if length selectorList = 0 then False
     else list_ex (\<lambda>selector. querySelector doc selector \<noteq> None) selectorList)"

definition detectPlatform :: "Page \<Rightarrow> regexp \<Rightarrow> PlatformProfile" where
  "detectPlatform page urlRegex =
    (let pageUrl = url page;
         pageTitle = (case title page of Inl e \<Rightarrow> [] | Inr t \<Rightarrow> t);
         candidates =
           filter (\<lambda>profile. list_ex (\<lambda>hint. test hint pageUrl \<or> test hint pageTitle)
                                (urlHints profile))
             PLATFORM_PROFILES;
         fingerprints =
           (\<lambda>profile. matchesDomHints (document page) (orEmpty (domHintsO (selectors profile))))
     in case find fingerprints candidates of
          Some profile \<Rightarrow> profile
        | None \<Rightarrow>
           (case find fingerprints PLATFORM_PROFILES of
              Some profile \<Rightarrow> profile
            | None \<Rightarrow>
               (if test urlRegex pageUrl then
                  (case find (\<lambda>profile. list_ex (\<lambda>hint. test hint pageUrl) (urlHints profile))
                          PLATFORM_PROFILES of
                     Some matched \<Rightarrow> matched
                   | None \<Rightarrow> UNKNOWN_PROFILE)
                else UNKNOWN_PROFILE)))"

subsection \<open>Reading the page\<close>

text \<open>\<open>el?.textContent?.trim()\<close>, with \<open>None\<close> for \<open>undefined\<close>.\<close>

definition trimmedText :: "Element option \<Rightarrow> string option" where
  "trimmedText el =
    (case el of
       None \<Rightarrow> None
     | Some e \<Rightarrow> (case textContent e of None \<Rightarrow> None | Some t \<Rightarrow> Some (trim t)))"

fun resolveModelLabel :: "Document \<Rightarrow> string list \<Rightarrow> string option" where
  "resolveModelLabel doc [] = None"
| "resolveModelLabel doc (selector # rest) =
    (case trimmedText (querySelector doc selector) of
       None \<Rightarrow> resolveModelLabel doc rest
     | Some text \<Rightarrow> if text \<noteq> [] then Some text else resolveModelLabel doc rest)"

fun countAssistantBlocks :: "Document \<Rightarrow> string list \<Rightarrow> nat" where
  "countAssistantBlocks doc [] = 0"
| "countAssistantBlocks doc (selector # rest) =
    (let matches = querySelectorAll doc selector
     in if length matches > 0 then length matches else countAssistantBlocks doc rest)"

text \<open>
  The inner loop of \<open>extractLatestAssistantText\<close> runs over the matches of one selector
  from the last to the first; \<open>scanMatches\<close> is that loop on the matches in that order.
\<close>

fun scanMatches :: "Element list \<Rightarrow> string option" where
  "scanMatches [] = None"
| "scanMatches (el # rest) =
    (case trimmedText (Some el) of
       None \<Rightarrow> scanMatches rest
     | Some text \<Rightarrow> if text \<noteq> [] then Some text else scanMatches rest)"

fun extractLatestAssistantText :: "Document \<Rightarrow> string list \<Rightarrow> string" where
  "extractLatestAssistantText doc [] = []"
| "extractLatestAssistantText doc (selector # rest) =
    (case scanMatches (rev (querySelectorAll doc selector)) of
       Some text \<Rightarrow> text
     | None \<Rightarrow> extractLatestAssistantText doc rest)"

fun resolveInputLocator :: "Page \<Rightarrow> string list \<Rightarrow> string + string" where
  "resolveInputLocator page [] =
    Inl ''Browser universal input not found. Update selectors or focus the input.''"
| "resolveInputLocator page (selector # rest) =
    (case locatorIsVisible page selector of
       Inr True \<Rightarrow> Inr selector
     | Inr False \<Rightarrow> resolveInputLocator page rest
     | Inl e \<Rightarrow> resolveInputLocator page rest)"

subsection \<open>The two waits\<close>

text \<open>
  What the function handed to \<open>page.waitForFunction\<close> gives when the page evaluates it: it
  returns a truth value, or it throws a \<open>TypeError\<close>.
\<close>

datatype Evaluation = Returns bool | ThrowsTypeError

text \<open>
  The values that the source hands to \<open>page.waitForFunction\<close> after the argument of the
  page function: a number, a list of selectors, or an options object with a timeout.
  \<open>timeoutOf\<close> is the property \<open>timeout\<close> of such a value; only the options object has it.
\<close>

datatype Extra = NumberValue nat | ListValue "string list" | TimeoutOptions nat

fun timeoutOf :: "Extra \<Rightarrow> nat option" where
  "timeoutOf (NumberValue n) = None"
| "timeoutOf (ListValue l) = None"
| "timeoutOf (TimeoutOptions t) = Some t"

definition PLAYWRIGHT_DEFAULT_TIMEOUT :: nat where
  "PLAYWRIGHT_DEFAULT_TIMEOUT = 30000"

text \<open>
  Polling a predicate on the documents a wait observes: the wait succeeds at the first
  document of which the predicate returns true, rejects when the predicate throws, and
  rejects with the timeout's diagnostic when the documents run out.
\<close>

fun poll :: "(Document \<Rightarrow> Evaluation) \<Rightarrow> Document list \<Rightarrow> string \<Rightarrow> string \<Rightarrow> string + unit" where
  "poll predicate [] timedOut thrown = Inl timedOut"
| "poll predicate (doc # rest) timedOut thrown =
    (case predicate doc of
       ThrowsTypeError \<Rightarrow> Inl thrown
     | Returns True \<Rightarrow> Inr ()
     | Returns False \<Rightarrow> poll predicate rest timedOut thrown)"

text \<open>
  \<open>page.waitForFunction(pageFunction, arg, options)\<close> of \<open>playwright-core\<close>, as the source
  calls it with one argument more. The page function is evaluated with \<open>arg\<close> alone, so
  its second parameter is \<open>undefined\<close> in the page (\<open>None\<close>); the value after \<open>arg\<close> is read
  as the options, and the timeout is the default when that value has no \<open>timeout\<close>; what
  follows the options is ignored.
\<close>

definition waitForFunction ::
  "('a \<Rightarrow> 'b option \<Rightarrow> Document \<Rightarrow> Evaluation) \<Rightarrow> 'a \<Rightarrow> Extra \<Rightarrow> Extra list \<Rightarrow> Page
     \<Rightarrow> (nat \<Rightarrow> Document list) \<Rightarrow> string + unit" where
  "waitForFunction pageFunction arg options ignored page frames =
    (let timeout = (case timeoutOf options of Some t \<Rightarrow> t | None \<Rightarrow> PLAYWRIGHT_DEFAULT_TIMEOUT)
     in poll (pageFunction arg None) (frames timeout) (timeoutDiagnostic page timeout)
          (thrownDiagnostic page))"

text \<open>
  The page function of the first wait: some selector matches more elements than
  \<open>previousCount\<close>. No number is greater than \<open>undefined\<close>.
\<close>

definition responseStarted :: "string list \<Rightarrow> nat option \<Rightarrow> Document \<Rightarrow> Evaluation" where
  "responseStarted selectorList previousCount doc =
    Returns
      (list_ex
        (\<lambda>selector.
           case previousCount of
             None \<Rightarrow> False
           | Some n \<Rightarrow> length (querySelectorAll doc selector) > n)
        selectorList)"

definition isVisible :: "Document \<Rightarrow> string \<Rightarrow> bool" where
  "isVisible doc selector =
    (case querySelector doc selector of
       None \<Rightarrow> False
     | Some el \<Rightarrow>
        (case computedStyle el of
           None \<Rightarrow> False
         | Some style \<Rightarrow>
            if display style = ''none'' \<or> visibility style = ''hidden'' then False
            else offsetParent el))"

text \<open>
  The page function of the second wait. It computes \<open>stopVisible\<close> first and then calls
  \<open>sendSelectors.some\<close>, which throws when \<open>sendSelectors\<close> is \<open>undefined\<close>.
\<close>

definition completionReached :: "string list \<Rightarrow> string list option \<Rightarrow> Document \<Rightarrow> Evaluation" where
  "completionReached stopSelectors sendSelectors doc =
    (let stopVisible = list_ex (isVisible doc) stopSelectors
     in case sendSelectors of
          None \<Rightarrow> ThrowsTypeError
        | Some sendList \<Rightarrow>
            (let sendVisible = list_ex (isVisible doc) sendList;
                 sendKnown = list_ex (\<lambda>selector. querySelector doc selector \<noteq> None) sendList
             in Returns (\<not> stopVisible \<and> (sendVisible \<or> \<not> sendKnown))))"

text \<open>
  \<open>waitForCompletion\<close> calls \<open>page.waitForFunction\<close> with the page function, the stop
  selectors, the send selectors and the options, in this order.
\<close>

definition waitForCompletion ::
  "Page \<Rightarrow> nat \<Rightarrow> string list \<Rightarrow> string list \<Rightarrow> string + unit" where
  "waitForCompletion page timeoutMs stopSelectors sendSelectors =
    waitForFunction completionReached stopSelectors (ListValue sendSelectors)
      [TimeoutOptions timeoutMs] page (completionFrames page)"

subsection \<open>The provider and its configuration\<close>

record BrowserUniversalOptions =
  opt_cdpUrl :: "string option"
  opt_urlRegex :: "regexp option"
  opt_timeoutMs :: "nat option"

definition DEFAULT_CDP_URL :: string where
  "DEFAULT_CDP_URL = ''http://127.0.0.1:9222''"

definition DEFAULT_URL_REGEX :: regexp where
  "DEFAULT_URL_REGEX =
    ILiterals [''chatgpt.com'', ''chat.openai.com'', ''claude.ai'', ''gemini.google.com'']"

definition DEFAULT_TIMEOUT_MS :: nat where
  "DEFAULT_TIMEOUT_MS = 120000"

text \<open>
  \<open>process.env\<close> maps variable names to values. \<open>new RegExp(raw)\<close> belongs to the
  language: it is the parameter \<open>compile\<close>, which answers \<open>None\<close> where the constructor
  throws.
\<close>

type_synonym Env = "string \<Rightarrow> string option"

definition resolveEnvRegex :: "(string \<Rightarrow> regexp option) \<Rightarrow> Env \<Rightarrow> regexp option" where
  "resolveEnvRegex compile env =
    (case env ''OPENCLAW_BROWSER_UNIVERSAL_URL_REGEX'' of
       None \<Rightarrow> None
     | Some v \<Rightarrow> (let raw = trim v in if raw = [] then None else compile raw))"

record BrowserUniversalProvider =
  cdpUrl :: string
  urlRegex :: regexp
  timeoutMs :: nat

text \<open>The constructor; a missing argument is the empty options object.\<close>

definition newProvider ::
  "(string \<Rightarrow> regexp option) \<Rightarrow> Env \<Rightarrow> BrowserUniversalOptions option \<Rightarrow> BrowserUniversalProvider" where
  "newProvider compile env given =
    (let options =
       (case given of
          None \<Rightarrow> \<lparr>opt_cdpUrl = None, opt_urlRegex = None, opt_timeoutMs = None\<rparr>
        | Some opts \<Rightarrow> opts)
     in \<lparr>cdpUrl =
           (case opt_cdpUrl options of
              Some u \<Rightarrow> u
            | None \<Rightarrow>
               (case env ''OPENCLAW_BROWSER_UNIVERSAL_CDP_URL'' of
                  Some u \<Rightarrow> u
                | None \<Rightarrow> DEFAULT_CDP_URL)),
         urlRegex =
           (case opt_urlRegex options of
              Some r \<Rightarrow> r
            | None \<Rightarrow>
               (case resolveEnvRegex compile env of
                  Some r \<Rightarrow> r
                | None \<Rightarrow> DEFAULT_URL_REGEX)),
         timeoutMs =
           (case opt_timeoutMs options of
              Some t \<Rightarrow> t
            | None \<Rightarrow> DEFAULT_TIMEOUT_MS)\<rparr>)"

subsection \<open>The channel and the steps of a run\<close>

text \<open>
  The world outside the bridge: what connecting to an endpoint gives (a browser, or a
  failure with its diagnostic), and the clock. A browser has its contexts with their
  pages, and \<open>closeFailure\<close> says whether \<open>browser.close()\<close> rejects, and with which
  diagnostic. A failure is its diagnostic message. The calls that can fail are the
  connection, the probes the source guards, the actions on a located element, the two
  waits and the closing of the browser; reading a document of a page gives the document.
\<close>

record Browser =
  contexts :: "Page list list"
  closeFailure :: "string option"

record World =
  connectOverCDP :: "string \<Rightarrow> string + Browser"
  dateNow :: nat

text \<open>
  What a run does to the outside, in the order it does it: a call on the channel, a push
  of an event on the stream handed to the caller, or the end of that stream with its final
  message.
\<close>

datatype Call =
    ConnectOverCDP string
  | OnLocator string Action
  | BrowserClose

datatype Effect =
    Channel Call
  | StreamPush Event
  | StreamEnd AssistantMessage

text \<open>
  A step of the run returns a value or a thrown diagnostic, together with the effects it
  had. \<open>andThen\<close> is sequencing; \<open>tryFinally\<close> and \<open>tryCatch\<close> are the two constructs of the
  language.
\<close>

type_synonym 'a Step = "(string + 'a) \<times> Effect list"

definition ok :: "'a \<Rightarrow> 'a Step" where
  "ok v = (Inr v, [])"

definition throw :: "string \<Rightarrow> 'a Step" where
  "throw e = (Inl e, [])"

definition fromResult :: "string + 'a \<Rightarrow> 'a Step" where
  "fromResult r = (r, [])"

definition andThen :: "'a Step \<Rightarrow> ('a \<Rightarrow> 'b Step) \<Rightarrow> 'b Step" where
  "andThen m f =
    (case m of
       (Inl e, log) \<Rightarrow> (Inl e, log)
     | (Inr v, log) \<Rightarrow> (case f v of (r, log') \<Rightarrow> (r, log @ log')))"

definition tryFinally :: "'a Step \<Rightarrow> unit Step \<Rightarrow> 'a Step" where
  "tryFinally body cleanup =
    (case body of
       (r, log) \<Rightarrow>
         (case cleanup of
            (Inl e, log') \<Rightarrow> (Inl e, log @ log')
          | (Inr u, log') \<Rightarrow> (r, log @ log')))"

definition tryCatch :: "'a Step \<Rightarrow> (string \<Rightarrow> 'a Step) \<Rightarrow> 'a Step" where
  "tryCatch body handler =
    (case body of
       (Inl e, log) \<Rightarrow> (case handler e of (r, log') \<Rightarrow> (r, log @ log'))
     | (Inr v, log) \<Rightarrow> (Inr v, log))"

definition channelCall :: "Call \<Rightarrow> string + 'a \<Rightarrow> 'a Step" where
  "channelCall c result = (result, [Channel c])"

definition streamPush :: "Event \<Rightarrow> unit Step" where
  "streamPush e = (Inr (), [StreamPush e])"

definition streamEnd :: "AssistantMessage \<Rightarrow> unit Step" where
  "streamEnd m = (Inr (), [StreamEnd m])"

definition locatorCall :: "Page \<Rightarrow> string \<Rightarrow> Action \<Rightarrow> unit Step" where
  "locatorCall page locator a =
    channelCall (OnLocator locator a)
      (case actionFailure page locator a of Some e \<Rightarrow> Inl e | None \<Rightarrow> Inr ())"

text \<open>The two sides of a run's effects: the stream the caller reads, and the channel.\<close>

fun onStream :: "Effect \<Rightarrow> bool" where
  "onStream (Channel c) = False"
| "onStream (StreamPush e) = True"
| "onStream (StreamEnd m) = True"

fun channelCalls :: "Effect list \<Rightarrow> Call list" where
  "channelCalls [] = []"
| "channelCalls (Channel c # rest) = c # channelCalls rest"
| "channelCalls (StreamPush e # rest) = channelCalls rest"
| "channelCalls (StreamEnd m # rest) = channelCalls rest"

text \<open>\<open>options?.signal\<close> is \<open>None\<close> when there is no signal, else whether it is aborted.\<close>

definition throwIfAborted :: "bool option \<Rightarrow> string + unit" where
  "throwIfAborted signal =
    (case signal of
       Some True \<Rightarrow> Inl ''Browser universal run aborted''
     | Some False \<Rightarrow> Inr ()
     | None \<Rightarrow> Inr ())"

subsection \<open>The bridge\<close>

text \<open>
  The body of the inner \<open>try\<close> of \<open>runBridge\<close>, in the parts it is written in:
  \<open>selectPage\<close> picks the tab, \<open>injectPrompt\<close> locates the input and delivers the prompt,
  \<open>awaitResponse\<close> is the two waits, \<open>checkedResponse\<close> is the extraction with the check
  of the response text, and \<open>scrape\<close> runs them around platform detection and the reading
  of the model label. It returns the response text and the model label. The first wait
  is the call of \<open>page.waitForFunction\<close> with the page function, the response selectors,
  the initial count and the options, in this order.
\<close>

definition selectPage :: "BrowserUniversalProvider \<Rightarrow> Browser \<Rightarrow> Page Step" where
  "selectPage self browser =
    (let pages = concat (contexts browser)
     in andThen
          (if length pages = 0
           then throw ''No open pages found in the connected Chrome instance.''
           else ok ())
          (\<lambda>u.
     let focusedPage = resolveFocusedPage pages;
         matchedPage =
           (case focusedPage of
              Some p \<Rightarrow> Some p
            | None \<Rightarrow> resolvePageByRegex pages (urlRegex self));
         selected =
           (case matchedPage of
              Some p \<Rightarrow> Some p
            | None \<Rightarrow> (case pages of [] \<Rightarrow> None | p # rest \<Rightarrow> Some p))
     in case selected of
          None \<Rightarrow> throw ''Unable to select an active tab for browser universal provider.''
        | Some page \<Rightarrow> ok page))"

definition injectPrompt ::
  "BrowserUniversalProvider \<Rightarrow> Page \<Rightarrow> string list \<Rightarrow> string \<Rightarrow> unit Step" where
  "injectPrompt self page inputSelectors prompt =
    andThen (fromResult (resolveInputLocator page inputSelectors)) (\<lambda>locator.
    andThen (locatorCall page locator (Click (timeoutMs self))) (\<lambda>u.
    andThen (locatorCall page locator EvaluateIsTextArea) (\<lambda>u.
    andThen
      (if locatorIsTextArea page locator
       then locatorCall page locator (Fill prompt (Some (timeoutMs self)))
       else andThen (locatorCall page locator (Fill [] None))
              (\<lambda>u. locatorCall page locator (TypeText prompt 5))) (\<lambda>u.
    locatorCall page locator (Press ''Enter'')))))"

definition awaitResponse ::
  "BrowserUniversalProvider \<Rightarrow> Page \<Rightarrow> SelectorStrategy \<Rightarrow> nat \<Rightarrow> unit Step" where
  "awaitResponse self page strategy initialCount =
    andThen
      (fromResult
        (waitForFunction responseStarted (assistant strategy) (NumberValue initialCount)
          [TimeoutOptions (timeoutMs self)] page (responseFrames page))) (\<lambda>u.
    fromResult (waitForCompletion page (timeoutMs self) (stop strategy) (send strategy)))"

definition checkedResponse :: "Page \<Rightarrow> SelectorStrategy \<Rightarrow> string Step" where
  "checkedResponse page strategy =
    (let responseText = extractLatestAssistantText (finalDocument page) (assistant strategy)
     in if responseText = []
        then throw ''Browser universal: no assistant response found.''
        else ok responseText)"

definition scrape ::
  "BrowserUniversalProvider \<Rightarrow> Browser \<Rightarrow> string \<Rightarrow> (string \<times> string option) Step" where
  "scrape self browser prompt =
    andThen (selectPage self browser) (\<lambda>page.
    let profile = detectPlatform page (urlRegex self);
        strategy = resolveSelectorStrategy profile;
        label = resolveModelLabel (document page) (modelLabel strategy);
        initialCount = countAssistantBlocks (document page) (assistant strategy)
    in andThen (injectPrompt self page (input strategy) prompt) (\<lambda>u.
       andThen (awaitResponse self page strategy initialCount) (\<lambda>u.
       andThen (checkedResponse page strategy) (\<lambda>responseText.
       ok (responseText, label)))))"

text \<open>The five pushes and the end of the stream that follow a successful scrape.\<close>

definition publish :: "Model \<Rightarrow> nat \<Rightarrow> string \<times> string option \<Rightarrow> unit Step" where
  "publish model now scraped =
    (case scraped of
       (responseText, label) \<Rightarrow>
         (let message = buildAssistantMessage responseText model label None now
          in andThen (streamPush (StartEvent message)) (\<lambda>u.
             andThen (streamPush (TextStart 0 message)) (\<lambda>u.
             andThen (streamPush (TextDelta 0 responseText message)) (\<lambda>u.
             andThen (streamPush (TextEnd 0 responseText message)) (\<lambda>u.
             andThen (streamPush (DoneEvent Stop message)) (\<lambda>u.
             streamEnd message)))))))"

text \<open>The error event and the end of the stream that report a diagnostic text.\<close>

definition publishError :: "Model \<Rightarrow> nat \<Rightarrow> string \<Rightarrow> unit Step" where
  "publishError model now text =
    (let error = buildAssistantMessage text model None (Some Error) now
     in andThen (streamPush (ErrorEvent Error error)) (\<lambda>u. streamEnd error))"

definition runBridge ::
  "World \<Rightarrow> BrowserUniversalProvider \<Rightarrow> Model \<Rightarrow> Context \<Rightarrow> bool option \<Rightarrow> unit Step" where
  "runBridge world self model context signal =
    (let prompt = extractLatestUserPrompt context
     in if prompt = [] then publishError model (dateNow world) ''Browser universal: empty prompt.''
        else
          tryCatch
            (andThen (fromResult (throwIfAborted signal)) (\<lambda>u.
             andThen (channelCall (ConnectOverCDP (cdpUrl self))
                        (connectOverCDP world (cdpUrl self))) (\<lambda>browser.
             tryFinally
               (andThen (scrape self browser prompt) (publish model (dateNow world)))
               (channelCall BrowserClose
                  (case closeFailure browser of Some e \<Rightarrow> Inl e | None \<Rightarrow> Inr ())))))
            (\<lambda>message.
               publishError model (dateNow world) (''Browser universal error: '' @ message)))"

subsection \<open>Notions of the specification\<close>

text \<open>
  The text of a turn: the plain text, or the text parts joined in order. A turn is blank
  when its text is empty or white space only. The latest user turn is the last message
  with the user role.
\<close>

definition turnText :: "Message \<Rightarrow> string" where
  "turnText m =
    (case content m of
       Plain s \<Rightarrow> s
     | Parts items \<Rightarrow> join [CHR 0x0A] (map itemText (filter isTextItem items)))"

definition blankTurn :: "Message \<Rightarrow> bool" where
  "blankTurn m = (trim (turnText m) = [])"

definition latestUserTurn :: "Context \<Rightarrow> Message option" where
  "latestUserTurn context = find (\<lambda>m. role m = UserRole) (rev (messages context))"

fun isParts :: "Content \<Rightarrow> bool" where
  "isParts (Plain s) = False"
| "isParts (Parts items) = True"

text \<open>
  The latest user turn that the prompt extraction does not pass over: it passes over a user
  turn given as content parts when that turn is blank.
\<close>

definition latestUsableUserTurn :: "Context \<Rightarrow> Message option" where
  "latestUsableUserTurn context =
    find (\<lambda>m. role m = UserRole \<and> (if isParts (content m) then trim (turnText m) \<noteq> [] else True))
      (rev (messages context))"

text \<open>The strategy a run resolves for the page it selected.\<close>

abbreviation strategyOf :: "BrowserUniversalProvider \<Rightarrow> Page \<Rightarrow> SelectorStrategy" where
  "strategyOf self page \<equiv> resolveSelectorStrategy (detectPlatform page (urlRegex self))"

text \<open>An element has text when its trimmed text content is not empty.\<close>

definition hasText :: "Element \<Rightarrow> bool" where
  "hasText el = (case textContent el of None \<Rightarrow> False | Some t \<Rightarrow> trim t \<noteq> [])"

text \<open>The trimmed text of an element, empty when it has no text content.\<close>

definition elementText :: "Element \<Rightarrow> string" where
  "elementText el = (case textContent el of None \<Rightarrow> [] | Some t \<Rightarrow> trim t)"



subsection \<open>Example inputs\<close>

text \<open>
  A model, a provider with the default configuration, and conversations: one user turn
  \<open>hello\<close>; and a plain user turn followed by a later user turn whose only part is blank.
\<close>

definition exampleModel :: Model where
  "exampleModel =
    \<lparr>model_id = ''browser-universal'', api = ''browser-universal'', provider = ''openclaw''\<rparr>"

definition exampleProvider :: BrowserUniversalProvider where
  "exampleProvider =
    \<lparr>cdpUrl = DEFAULT_CDP_URL, urlRegex = DEFAULT_URL_REGEX, timeoutMs = DEFAULT_TIMEOUT_MS\<rparr>"

definition helloContext :: Context where
  "helloContext = \<lparr>messages = [\<lparr>role = UserRole, content = Plain ''hello''\<rparr>]\<rparr>"

definition blankPartsContext :: Context where
  "blankPartsContext =
    \<lparr>messages = [\<lparr>role = UserRole, content = Plain ''hello''\<rparr>,
                 \<lparr>role = AssistantRole, content = Parts [TextItem ''hi there'']\<rparr>,
                 \<lparr>role = UserRole, content = Parts [TextItem ''  '', OtherItem]\<rparr>]\<rparr>"

definition blankPlainContext :: Context where
  "blankPlainContext =
    \<lparr>messages = [\<lparr>role = UserRole, content = Plain ''hello''\<rparr>,
                 \<lparr>role = UserRole, content = Plain ''  ''\<rparr>]\<rparr>"

text \<open>A world in which connecting fails.\<close>

definition refusingWorld :: World where
  "refusingWorld = \<lparr>connectOverCDP = (\<lambda>endpoint. Inl ''connect ECONNREFUSED''), dateNow = 7\<rparr>"

text \<open>
  A chat page. Its document shows the replies given, a prompt text area, a model switcher
  and, while busy, a stop button in place of the send button.
\<close>

definition shownElement :: "string \<Rightarrow> Element" where
  "shownElement t =
    \<lparr>textContent = Some t,
     computedStyle = Some \<lparr>display = ''block'', visibility = ''visible''\<rparr>,
     offsetParent = True\<rparr>"

definition chatDocument :: "string list \<Rightarrow> bool \<Rightarrow> Document" where
  \<open>chatDocument replies busy selector =
    (if selector = ''[data-message-author-role="assistant"]'' then map shownElement replies
     else if selector = ''#prompt-textarea'' then [shownElement '''']
     else if selector = ''button[data-testid="model-switcher"]'' then [shownElement '' GPT-4o '']
     else if selector = ''button[aria-label*="Stop"]'' then (if busy then [shownElement ''''] else [])
     else if selector = ''button[aria-label*="Send"]'' then (if busy then [] else [shownElement ''''])
     else [])\<close>

definition emptyDocument :: Document where
  "emptyDocument selector = []"

definition chatPage :: Page where
  \<open>chatPage =
    \<lparr>isClosed = False,
     url = ''https://chatgpt.com/c/1'',
     title = Inr ''ChatGPT'',
     hasFocus = Inr True,
     document = chatDocument [''earlier reply''] False,
     locatorIsVisible = (\<lambda>selector. Inr (selector = ''textarea#prompt-textarea'')),
     locatorIsTextArea = (\<lambda>selector. True),
     actionFailure = (\<lambda>selector action. None),
     responseFrames =
       (\<lambda>timeout. [chatDocument [''earlier reply''] True,
                    chatDocument [''earlier reply'', ''hi''] True]),
     completionFrames =
       (\<lambda>timeout. [chatDocument [''earlier reply'', ''hi the''] True,
                    chatDocument [''earlier reply'', ''hi there''] False]),
     timeoutDiagnostic =
       (\<lambda>timeout. if timeout = 30000 then ''page.waitForFunction: Timeout 30000ms exceeded.''
                  else ''page.waitForFunction: Timeout exceeded.''),
     thrownDiagnostic = ''page.waitForFunction: TypeError: sendSelectors is undefined'',
     finalDocument = chatDocument [''earlier reply'', '' hi there ''] False\<rparr>\<close>

definition chatBrowser :: Browser where
  "chatBrowser = \<lparr>contexts = [[chatPage]], closeFailure = None\<rparr>"

definition chatWorld :: World where
  "chatWorld = \<lparr>connectOverCDP = (\<lambda>endpoint. Inr chatBrowser), dateNow = 7\<rparr>"

text \<open>A browser with no page whose closing rejects, and the world that connects to it.\<close>

definition stuckBrowser :: Browser where
  "stuckBrowser = \<lparr>contexts = [], closeFailure = Some ''Target closed''\<rparr>"

definition stuckWorld :: World where
  "stuckWorld = \<lparr>connectOverCDP = (\<lambda>endpoint. Inr stuckBrowser), dateNow = 7\<rparr>"

text \<open>The same page when every reply block is blank after the waits.\<close>

definition silentPage :: Page where
  "silentPage = chatPage\<lparr>finalDocument := chatDocument ['''', ''  ''] False\<rparr>"

text \<open>The chat page when the second wait finds an empty document at its first poll.\<close>

definition idlePage :: Page where
  "idlePage = chatPage\<lparr>completionFrames := (\<lambda>timeout. [emptyDocument])\<rparr>"

text \<open>
  A page at a ChatGPT address whose document carries the marks of two other platforms: a
  button labelled as a model switcher, which is a fingerprint rule of Claude, and a region
  labelled Gemini, which is a fingerprint rule of Gemini.
\<close>

definition foreignDocument :: Document where
  \<open>foreignDocument selector =
    (if selector = ''button[aria-label*="Model"]'' then [shownElement ''Model: 2.5 Pro'']
     else if selector = ''div[aria-label*="Gemini"]'' then [shownElement '''']
     else [])\<close>

definition foreignPage :: Page where
  "foreignPage = chatPage\<lparr>document := foreignDocument\<rparr>"

text \<open>Documents with two reply blocks under one rule: both with text, and the last blank.\<close>

definition twoReplies :: Document where
  "twoReplies selector =
    (if selector = ''article'' then [shownElement ''first reply'', shownElement ''second reply'']
     else [])"

definition blankLastReply :: Document where
  "blankLastReply selector =
    (if selector = ''article'' then [shownElement ''first reply'', shownElement ''   '']
     else [])"

text \<open>
  Two regular-expression constructors: one that rejects every text, and one that reads
  every text as a literal.
\<close>

definition rejectingCompile :: "string \<Rightarrow> regexp option" where
  "rejectingCompile raw = None"


definition literalCompile :: "string \<Rightarrow> regexp option" where
  "literalCompile raw = Some (ILiterals [raw])"

text \<open>An environment that sets every variable to the same text.\<close>

definition uniformEnv :: "string \<Rightarrow> Env" where
  "uniformEnv v name = Some v"

section \<open>Properties\<close>

subsection \<open>Selector merging\<close>

lemma set_keepFirst: "set (keepFirst xs) = set xs"
  by (induction xs rule: keepFirst.induct) auto

lemma distinct_keepFirst: "distinct (keepFirst xs)"
  by (induction xs rule: keepFirst.induct) (auto simp: set_keepFirst)

lemma keepFirst_distinct: "distinct xs \<Longrightarrow> keepFirst xs = xs"
proof (induction xs)
  case Nil
  then show ?case by simp
next
  case (Cons x xs)
  then have "filter (\<lambda>y. y \<noteq> x) xs = xs" by (auto intro: filter_True)
  with Cons show ?case by simp
qed

lemma keepFirst_append:
  "keepFirst (xs @ ys) = keepFirst xs @ keepFirst (filter (\<lambda>y. y \<notin> set xs) ys)"
proof (induction xs arbitrary: ys rule: keepFirst.induct)
  case 1
  then show ?case by simp
next
  case (2 x xs)
  have "filter (\<lambda>y. y \<notin> set (filter (\<lambda>y. y \<noteq> x) xs)) (filter (\<lambda>y. y \<noteq> x) ys)
      = filter (\<lambda>y. y \<noteq> x \<and> y \<notin> set xs) ys"
    by (auto intro: filter_cong)
  with 2 show ?case by simp
qed

lemma foldl_setAdd:
  "foldl setAdd acc xs = acc @ keepFirst (filter (\<lambda>y. y \<notin> set acc) xs)"
proof (induction xs arbitrary: acc)
  case Nil
  then show ?case by simp
next
  case (Cons x xs)
  show ?case
  proof (cases "x \<in> set acc")
    case True
    have "foldl setAdd acc (x # xs) = foldl setAdd (setAdd acc x) xs" by simp
    also have "setAdd acc x = acc" using True by (simp add: setAdd_def)
    finally show ?thesis using True by (simp add: Cons.IH)
  next
    case False
    have "filter (\<lambda>y. y \<noteq> x) (filter (\<lambda>y. y \<notin> set acc) xs)
        = filter (\<lambda>y. y \<notin> set (acc @ [x])) xs"
      by (auto intro: filter_cong)
    moreover have "foldl setAdd acc (x # xs) = foldl setAdd (acc @ [x]) xs"
      using False by (simp add: setAdd_def)
    ultimately show ?thesis using False by (simp add: Cons.IH)
  qed
qed

lemma arrayFromSet_keepFirst: "arrayFromSet xs = keepFirst xs"
  by (simp add: arrayFromSet_def foldl_setAdd)

lemma mergeSelectors_specMerge:
  "distinct base \<Longrightarrow> mergeSelectors base specific = specMerge (orEmpty specific) base"
  by (auto simp: mergeSelectors_def specMerge_def orEmpty_def arrayFromSet_keepFirst
      keepFirst_distinct split: option.splits)

lemma keepFirst_absorb:
  assumes "distinct m" and "set b \<subseteq> set m"
  shows "keepFirst (m @ b) = m"
proof -
  have "filter (\<lambda>y. y \<notin> set m) b = []"
    using assms(2) by (auto simp: filter_empty_conv)
  then show ?thesis by (simp add: keepFirst_append keepFirst_distinct assms(1))
qed

lemma mergeSelectors_again:
  assumes "distinct base"
  shows "mergeSelectors base (Some (mergeSelectors base specific)) = mergeSelectors base specific"
proof -
  let ?m = "mergeSelectors base specific"
  have m: "?m = keepFirst (orEmpty specific @ base)"
    using mergeSelectors_specMerge [OF assms] by (simp add: specMerge_def)
  have "distinct ?m" and sub: "set base \<subseteq> set ?m"
    by (simp_all add: m distinct_keepFirst set_keepFirst)
  then have "keepFirst (?m @ base) = ?m" by (rule keepFirst_absorb)
  moreover have "?m = [] \<Longrightarrow> base = []" using sub by simp
  ultimately show ?thesis
    by (simp add: mergeSelectors_def [of base "Some ?m"] arrayFromSet_keepFirst)
qed

lemma distinct_INPUT_SELECTORS: "distinct INPUT_SELECTORS"
  by (simp add: INPUT_SELECTORS_def)

lemma distinct_STOP_SELECTORS: "distinct STOP_SELECTORS"
  by (simp add: STOP_SELECTORS_def)

lemma distinct_SEND_SELECTORS: "distinct SEND_SELECTORS"
  by (simp add: SEND_SELECTORS_def)

lemma distinct_ASSISTANT_SELECTORS: "distinct ASSISTANT_SELECTORS"
  by (simp add: ASSISTANT_SELECTORS_def)

lemma distinct_MODEL_LABEL_SELECTORS: "distinct MODEL_LABEL_SELECTORS"
  by (simp add: MODEL_LABEL_SELECTORS_def)

lemmas distinct_generic =
  distinct_INPUT_SELECTORS distinct_STOP_SELECTORS distinct_SEND_SELECTORS
  distinct_ASSISTANT_SELECTORS distinct_MODEL_LABEL_SELECTORS

text \<open>
  Claim C4. For every profile and every category, the resolved list is the profile's
  override rules in their authored order followed by the generic rules, with exact
  duplicates removed keeping the first occurrence: the overrides without their duplicates
  come first, then the generic rules that are not among the overrides, in their generic
  order. Merging the resolved list over the generic list again changes nothing, and
  merging the overrides \<open>[a, b]\<close> with the generic list \<open>[b, c, a]\<close> yields \<open>[a, b, c]\<close>.
\<close>

theorem selector_merge_overrides_first:
  \<open>input (resolveSelectorStrategy profile)
      = specMerge (orEmpty (inputO (selectors profile))) INPUT_SELECTORS
   \<and> stop (resolveSelectorStrategy profile)
      = specMerge (orEmpty (stopO (selectors profile))) STOP_SELECTORS
   \<and> send (resolveSelectorStrategy profile)
      = specMerge (orEmpty (sendO (selectors profile))) SEND_SELECTORS
   \<and> assistant (resolveSelectorStrategy profile)
      = specMerge (orEmpty (assistantO (selectors profile))) ASSISTANT_SELECTORS
   \<and> modelLabel (resolveSelectorStrategy profile)
      = specMerge (orEmpty (modelLabelO (selectors profile))) MODEL_LABEL_SELECTORS
   \<and> domHints (resolveSelectorStrategy profile)
      = specMerge (orEmpty (domHintsO (selectors profile))) (domHints BASE_SELECTORS)
   \<and> specMerge overrides generic
      = keepFirst overrides @ keepFirst (filter (\<lambda>rule. rule \<notin> set overrides) generic)
   \<and> mergeSelectors INPUT_SELECTORS (Some (input (resolveSelectorStrategy profile)))
      = input (resolveSelectorStrategy profile)
   \<and> mergeSelectors STOP_SELECTORS (Some (stop (resolveSelectorStrategy profile)))
      = stop (resolveSelectorStrategy profile)
   \<and> mergeSelectors SEND_SELECTORS (Some (send (resolveSelectorStrategy profile)))
      = send (resolveSelectorStrategy profile)
   \<and> mergeSelectors ASSISTANT_SELECTORS (Some (assistant (resolveSelectorStrategy profile)))
      = assistant (resolveSelectorStrategy profile)
   \<and> mergeSelectors MODEL_LABEL_SELECTORS (Some (modelLabel (resolveSelectorStrategy profile)))
      = modelLabel (resolveSelectorStrategy profile)
   \<and> mergeSelectors (domHints BASE_SELECTORS) (Some (domHints (resolveSelectorStrategy profile)))
      = domHints (resolveSelectorStrategy profile)
   \<and> mergeSelectors [''b'', ''c'', ''a''] (Some [''a'', ''b'']) = [''a'', ''b'', ''c'']\<close>
proof -
  have e: "distinct (domHints BASE_SELECTORS)" by (simp add: BASE_SELECTORS_def)
  have ex: \<open>mergeSelectors [''b'', ''c'', ''a''] (Some [''a'', ''b'']) = [''a'', ''b'', ''c'']\<close>
    by (simp add: mergeSelectors_def arrayFromSet_def setAdd_def)
  have sp: "specMerge overrides generic
      = keepFirst overrides @ keepFirst (filter (\<lambda>rule. rule \<notin> set overrides) generic)"
    by (simp add: specMerge_def keepFirst_append)
  have fields:
    "input (resolveSelectorStrategy profile)
       = mergeSelectors INPUT_SELECTORS (inputO (selectors profile))"
    "stop (resolveSelectorStrategy profile)
       = mergeSelectors STOP_SELECTORS (stopO (selectors profile))"
    "send (resolveSelectorStrategy profile)
       = mergeSelectors SEND_SELECTORS (sendO (selectors profile))"
    "assistant (resolveSelectorStrategy profile)
       = mergeSelectors ASSISTANT_SELECTORS (assistantO (selectors profile))"
    "modelLabel (resolveSelectorStrategy profile)
       = mergeSelectors MODEL_LABEL_SELECTORS (modelLabelO (selectors profile))"
    "domHints (resolveSelectorStrategy profile)
       = mergeSelectors (domHints BASE_SELECTORS) (domHintsO (selectors profile))"
    by (simp_all add: resolveSelectorStrategy_def)
  have again:
    "mergeSelectors INPUT_SELECTORS (Some (input (resolveSelectorStrategy profile)))
       = input (resolveSelectorStrategy profile)"
    "mergeSelectors STOP_SELECTORS (Some (stop (resolveSelectorStrategy profile)))
       = stop (resolveSelectorStrategy profile)"
    "mergeSelectors SEND_SELECTORS (Some (send (resolveSelectorStrategy profile)))
       = send (resolveSelectorStrategy profile)"
    "mergeSelectors ASSISTANT_SELECTORS (Some (assistant (resolveSelectorStrategy profile)))
       = assistant (resolveSelectorStrategy profile)"
    "mergeSelectors MODEL_LABEL_SELECTORS (Some (modelLabel (resolveSelectorStrategy profile)))
       = modelLabel (resolveSelectorStrategy profile)"
    "mergeSelectors (domHints BASE_SELECTORS) (Some (domHints (resolveSelectorStrategy profile)))
       = domHints (resolveSelectorStrategy profile)"
    unfolding fields by (rule mergeSelectors_again, simp add: distinct_generic e)+
  have spec:
    "input (resolveSelectorStrategy profile)
       = specMerge (orEmpty (inputO (selectors profile))) INPUT_SELECTORS"
    "stop (resolveSelectorStrategy profile)
       = specMerge (orEmpty (stopO (selectors profile))) STOP_SELECTORS"
    "send (resolveSelectorStrategy profile)
       = specMerge (orEmpty (sendO (selectors profile))) SEND_SELECTORS"
    "assistant (resolveSelectorStrategy profile)
       = specMerge (orEmpty (assistantO (selectors profile))) ASSISTANT_SELECTORS"
    "modelLabel (resolveSelectorStrategy profile)
       = specMerge (orEmpty (modelLabelO (selectors profile))) MODEL_LABEL_SELECTORS"
    "domHints (resolveSelectorStrategy profile)
       = specMerge (orEmpty (domHintsO (selectors profile))) (domHints BASE_SELECTORS)"
    unfolding fields by (rule mergeSelectors_specMerge, simp add: distinct_generic e)+
  from spec sp again ex show ?thesis by (intro conjI)
qed

text \<open>The merge at the ChatGPT profile: its own rules first, the generic rest after them.\<close>

theorem selector_merge_overrides_first_witness:
  \<open>stop (resolveSelectorStrategy CHATGPT_PROFILE)
     = [''button[aria-label*="Stop"]'', ''button[data-testid*="stop"]'',
        ''button[title*="Stop"]'', ''button:has(svg[aria-label*="Stop"])'',
        ''button:has(svg[data-icon*="stop"])'', ''button:has(svg[data-testid*="stop"])'']\<close>
proof -
  have "stop (resolveSelectorStrategy CHATGPT_PROFILE)
      = specMerge (orEmpty (stopO (selectors CHATGPT_PROFILE))) STOP_SELECTORS"
    using selector_merge_overrides_first [of CHATGPT_PROFILE] by blast
  then show ?thesis
    by (simp add: specMerge_def orEmpty_def CHATGPT_PROFILE_def STOP_SELECTORS_def)
qed

subsection \<open>Steps and their effects\<close>

lemmas step_defs =
  ok_def throw_def fromResult_def andThen_def tryFinally_def tryCatch_def
  channelCall_def streamPush_def streamEnd_def locatorCall_def

lemma andThen_Inl: "fst m = Inl e \<Longrightarrow> andThen m f = (Inl e, snd m)"
  by (cases m) (simp add: andThen_def)

lemma andThen_Inr: "fst m = Inr v \<Longrightarrow> andThen m f = (fst (f v), snd m @ snd (f v))"
  by (cases m; cases "f v") (simp add: andThen_def)

lemma andThen_fst_Inr:
  "fst (andThen m f) = Inr y \<longleftrightarrow> (\<exists>v. fst m = Inr v \<and> fst (f v) = Inr y)"
  by (cases m; cases "fst m") (auto simp: andThen_def split: prod.splits)

lemma andThen_fst_Inl:
  "fst (andThen m f) = Inl e \<longleftrightarrow> fst m = Inl e \<or> (\<exists>v. fst m = Inr v \<and> fst (f v) = Inl e)"
  by (cases m; cases "fst m") (auto simp: andThen_def split: prod.splits)

lemma publishError_effects:
  "publishError model now text =
    (Inr (), [StreamPush (ErrorEvent Error (buildAssistantMessage text model None (Some Error) now)),
              StreamEnd (buildAssistantMessage text model None (Some Error) now)])"
  by (simp add: publishError_def Let_def step_defs)


lemma buildAssistantMessage_fields:
  "msg_content (buildAssistantMessage text model detected reason now) = [TextItem text]"
  "stopReason (buildAssistantMessage text model detected None now) = Stop"
  "stopReason (buildAssistantMessage text model detected (Some r) now) = r"
  "msg_model (buildAssistantMessage text model None reason now) = model_id model"
  by (simp_all add: buildAssistantMessage_def Let_def)

text \<open>A step that only acts on located elements.\<close>

lemma locatorOnly_andThen:
  assumes "\<forall>e \<in> set (snd m). \<exists>l a. e = Channel (OnLocator l a)"
      and "\<And>v. \<forall>e \<in> set (snd (f v)). \<exists>l a. e = Channel (OnLocator l a)"
  shows "\<forall>e \<in> set (snd (andThen m f)). \<exists>l a. e = Channel (OnLocator l a)"
proof (cases "fst m")
  case (Inl e)
  then show ?thesis using assms(1) by (simp add: andThen_Inl)
next
  case (Inr v)
  then show ?thesis using assms(1) assms(2) [of v] by (auto simp: andThen_Inr)
qed

lemma locatorOnly_locatorCall:
  "\<forall>e \<in> set (snd (locatorCall page locator a)). \<exists>l a. e = Channel (OnLocator l a)"
  by (simp add: locatorCall_def channelCall_def)

lemma locatorOnly_two_calls:
  "\<forall>e \<in> set (snd (andThen (locatorCall page locator a) (\<lambda>u. locatorCall page locator b))).
     \<exists>l a. e = Channel (OnLocator l a)"
  by (intro locatorOnly_andThen locatorOnly_locatorCall)

lemma locatorOnly_injectPrompt:
  "\<forall>e \<in> set (snd (injectPrompt self page rules prompt)). \<exists>l a. e = Channel (OnLocator l a)"
  unfolding injectPrompt_def
  by (intro locatorOnly_andThen locatorOnly_locatorCall)
     (simp_all add: fromResult_def locatorOnly_two_calls locatorOnly_locatorCall)

lemma selectPage_silent: "snd (selectPage self browser) = []"
  by (simp add: selectPage_def Let_def step_defs split: option.splits list.splits)

subsection \<open>The waits as the code runs them\<close>

lemma poll_never_true:
  assumes "\<And>doc. predicate doc = Returns False"
  shows "poll predicate frames timedOut thrown = Inl timedOut"
  by (induction frames) (simp_all add: assms)

lemma poll_throws:
  assumes "\<And>doc. predicate doc = ThrowsTypeError"
  shows "poll predicate frames timedOut thrown
           = (case frames of [] \<Rightarrow> Inl timedOut | doc # rest \<Rightarrow> Inl thrown)"
  by (cases frames) (simp_all add: assms)

lemma responseStarted_undefined: "responseStarted selectorList None doc = Returns False"
  by (induction selectorList) (simp_all add: responseStarted_def)

lemma completionReached_undefined: "completionReached stopSelectors None doc = ThrowsTypeError"
  by (simp add: completionReached_def)

lemma first_wait_times_out:
  "waitForFunction responseStarted selectorList (NumberValue n) ignored page frames
     = Inl (timeoutDiagnostic page PLAYWRIGHT_DEFAULT_TIMEOUT)"
  by (simp add: waitForFunction_def poll_never_true responseStarted_undefined)

lemma waitForCompletion_rejects:
  "waitForCompletion page timeout stopSelectors sendSelectors
     = (case completionFrames page PLAYWRIGHT_DEFAULT_TIMEOUT of
          [] \<Rightarrow> Inl (timeoutDiagnostic page PLAYWRIGHT_DEFAULT_TIMEOUT)
        | doc # rest \<Rightarrow> Inl (thrownDiagnostic page))"
  by (simp add: waitForCompletion_def waitForFunction_def poll_throws completionReached_undefined)

lemma awaitResponse_times_out:
  "awaitResponse self page strategy initialCount
     = (Inl (timeoutDiagnostic page PLAYWRIGHT_DEFAULT_TIMEOUT), [])"
  by (simp add: awaitResponse_def first_wait_times_out step_defs)

subsection \<open>What a scrape returns\<close>

lemma scrape_fails_iff:
  "fst (scrape self browser prompt) = Inl m \<longleftrightarrow>
     fst (selectPage self browser) = Inl m
   \<or> (\<exists>page.
       fst (selectPage self browser) = Inr page
     \<and> (fst (injectPrompt self page (input (strategyOf self page)) prompt) = Inl m
        \<or> fst (injectPrompt self page (input (strategyOf self page)) prompt) = Inr ()
        \<and> m = timeoutDiagnostic page PLAYWRIGHT_DEFAULT_TIMEOUT))"
  by (auto simp: scrape_def Let_def andThen_fst_Inl awaitResponse_times_out)

lemma scrape_never_succeeds: "fst (scrape self browser prompt) \<noteq> Inr response"
  by (auto simp: scrape_def Let_def andThen_fst_Inr awaitResponse_times_out)

lemma checkedResponse_silent: "snd (checkedResponse page strategy) = []"
  by (simp add: checkedResponse_def Let_def ok_def throw_def)

lemma locatorOnly_scrape:
  "\<forall>e \<in> set (snd (scrape self browser prompt)). \<exists>l a. e = Channel (OnLocator l a)"
  unfolding scrape_def Let_def
  by (intro locatorOnly_andThen locatorOnly_injectPrompt)
     (simp_all add: selectPage_silent awaitResponse_times_out checkedResponse_silent ok_def)

lemma scrape_not_onStream: "filter onStream (snd (scrape self browser prompt)) = []"
  using locatorOnly_scrape [of self browser prompt] by (auto simp: filter_empty_conv)

lemma channelCalls_append: "channelCalls (xs @ ys) = channelCalls xs @ channelCalls ys"
  by (induction xs rule: channelCalls.induct) simp_all

lemma channelCalls_locatorOnly:
  "\<forall>e \<in> set log. \<exists>l a. e = Channel (OnLocator l a) \<Longrightarrow>
     \<forall>c \<in> set (channelCalls log). \<exists>l a. c = OnLocator l a"
  by (induction log rule: channelCalls.induct) auto

lemma scrape_calls:
  "\<forall>c \<in> set (channelCalls (snd (scrape self browser prompt))). \<exists>l a. c = OnLocator l a"
  by (rule channelCalls_locatorOnly) (rule locatorOnly_scrape)

lemma scrape_never_closes: "BrowserClose \<notin> set (channelCalls (snd (scrape self browser prompt)))"
  using scrape_calls [of self browser prompt] by auto

subsection \<open>The paths through the bridge\<close>

text \<open>
  The diagnostic that reaches the \<open>catch\<close> after a failure in the inner \<open>try\<close>: that of the
  failure, or that of the close when the close rejects.
\<close>

lemma runBridge_empty_prompt:
  assumes "extractLatestUserPrompt context = []"
  shows "runBridge world self model context signal =
           publishError model (dateNow world) ''Browser universal: empty prompt.''"
  using assms by (simp add: runBridge_def)

lemma runBridge_aborted:
  assumes "extractLatestUserPrompt context \<noteq> []"
      and "throwIfAborted signal = Inl m"
  shows "runBridge world self model context signal =
           publishError model (dateNow world) (''Browser universal error: '' @ m)"
  using assms by (simp add: runBridge_def Let_def step_defs publishError_effects)

lemma runBridge_connect_failed:
  assumes "extractLatestUserPrompt context \<noteq> []"
      and "throwIfAborted signal = Inr ()"
      and "connectOverCDP world (cdpUrl self) = Inl m"
  shows "runBridge world self model context signal =
           (Inr (), Channel (ConnectOverCDP (cdpUrl self))
                      # snd (publishError model (dateNow world) (''Browser universal error: '' @ m)))"
  using assms by (simp add: runBridge_def Let_def step_defs publishError_effects)

lemma runBridge_scrape_failed:
  assumes "extractLatestUserPrompt context = prompt" and "prompt \<noteq> []"
      and "throwIfAborted signal = Inr ()"
      and "connectOverCDP world (cdpUrl self) = Inr browser"
      and "fst (scrape self browser prompt) = Inl m"
  shows "runBridge world self model context signal =
           (Inr (), Channel (ConnectOverCDP (cdpUrl self)) # snd (scrape self browser prompt)
                      @ Channel BrowserClose
                      # snd (publishError model (dateNow world)
                               (''Browser universal error: ''
                                  @ (case closeFailure browser of Some c \<Rightarrow> c | None \<Rightarrow> m))))"
  using assms
  by (cases "scrape self browser prompt"; cases "closeFailure browser")
     (simp_all add: runBridge_def Let_def step_defs publishError_effects)

lemma runBridge_connected:
  assumes "extractLatestUserPrompt context = prompt" and "prompt \<noteq> []"
      and "throwIfAborted signal = Inr ()"
      and "connectOverCDP world (cdpUrl self) = Inr browser"
  shows "\<exists>m. fst (scrape self browser prompt) = Inl m
           \<and> runBridge world self model context signal =
               (Inr (), Channel (ConnectOverCDP (cdpUrl self)) # snd (scrape self browser prompt)
                          @ Channel BrowserClose
                          # snd (publishError model (dateNow world)
                                   (''Browser universal error: ''
                                      @ (case closeFailure browser of Some c \<Rightarrow> c | None \<Rightarrow> m))))"
proof (cases "fst (scrape self browser prompt)")
  case (Inl m)
  with runBridge_scrape_failed [OF assms Inl] show ?thesis by blast
next
  case (Inr response)
  with scrape_never_succeeds [of self browser prompt response] show ?thesis by simp
qed

subsection \<open>The example runs\<close>

lemmas text_defs = trim_def isWhiteSpace_def

lemmas document_defs = querySelector_def querySelectorAll_def chatDocument_def shownElement_def

lemma hello_prompt: "extractLatestUserPrompt helloContext = ''hello''"
  by (simp add: extractLatestUserPrompt_def helloContext_def text_defs)


lemma chat_selectPage: "selectPage self chatBrowser = (Inr chatPage, [])"
  by (auto simp: selectPage_def chatBrowser_def chatPage_def step_defs
      Let_def split: option.splits sum.splits bool.splits)

lemma chat_detectPlatform: "detectPlatform chatPage DEFAULT_URL_REGEX = CHATGPT_PROFILE"
  by (simp add: detectPlatform_def chatPage_def PLATFORM_PROFILES_def CHATGPT_PROFILE_def
      toLower_def matchesDomHints_def orEmpty_def document_defs)

lemma chat_strategy:
  \<open>input (resolveSelectorStrategy CHATGPT_PROFILE) =
     ''textarea#prompt-textarea'' # ''div[contenteditable="true"][data-testid="prompt-textarea"]''
       # INPUT_SELECTORS\<close>
  \<open>assistant (resolveSelectorStrategy CHATGPT_PROFILE) = ASSISTANT_SELECTORS\<close>
  \<open>modelLabel (resolveSelectorStrategy CHATGPT_PROFILE) =
     [''button[data-testid="model-switcher"]'', ''button[aria-label*="Model"]'',
      ''button[aria-haspopup="listbox"]'', ''button[data-testid*="model"]'',
      ''[data-testid*="model"]'', ''div[role="button"][aria-haspopup="listbox"]'']\<close>
  \<open>stop (resolveSelectorStrategy CHATGPT_PROFILE) =
     [''button[aria-label*="Stop"]'', ''button[data-testid*="stop"]'',
      ''button[title*="Stop"]'', ''button:has(svg[aria-label*="Stop"])'',
      ''button:has(svg[data-icon*="stop"])'', ''button:has(svg[data-testid*="stop"])'']\<close>
  \<open>send (resolveSelectorStrategy CHATGPT_PROFILE) =
     [''button[aria-label*="Send"]'', ''button[data-testid*="send"]'',
      ''button[title*="Send"]'', ''button:has(svg[aria-label*="Send"])'',
      ''button:has(svg[data-icon*="send"])'']\<close>
  by (simp_all add: resolveSelectorStrategy_def mergeSelectors_def arrayFromSet_def setAdd_def
      CHATGPT_PROFILE_def INPUT_SELECTORS_def ASSISTANT_SELECTORS_def MODEL_LABEL_SELECTORS_def
      STOP_SELECTORS_def SEND_SELECTORS_def)





lemma chat_injectPrompt:
  "injectPrompt exampleProvider chatPage
      (input (resolveSelectorStrategy CHATGPT_PROFILE)) ''hello''
     = (Inr (),
        [Channel (OnLocator ''textarea#prompt-textarea'' (Click DEFAULT_TIMEOUT_MS)),
         Channel (OnLocator ''textarea#prompt-textarea'' EvaluateIsTextArea),
         Channel (OnLocator ''textarea#prompt-textarea'' (Fill ''hello'' (Some DEFAULT_TIMEOUT_MS))),
         Channel (OnLocator ''textarea#prompt-textarea'' (Press ''Enter''))])"
  by (simp add: injectPrompt_def chat_strategy chatPage_def exampleProvider_def step_defs)

lemma chat_timeout:
  "timeoutDiagnostic chatPage PLAYWRIGHT_DEFAULT_TIMEOUT
     = ''page.waitForFunction: Timeout 30000ms exceeded.''"
  by (simp add: chatPage_def PLAYWRIGHT_DEFAULT_TIMEOUT_def)

lemma example_fields:
  "cdpUrl exampleProvider = DEFAULT_CDP_URL"
  "urlRegex exampleProvider = DEFAULT_URL_REGEX"
  "timeoutMs exampleProvider = DEFAULT_TIMEOUT_MS"
  "dateNow chatWorld = 7"
  "dateNow refusingWorld = 7"
  "dateNow stuckWorld = 7"
  "connectOverCDP chatWorld endpoint = Inr chatBrowser"
  "connectOverCDP refusingWorld endpoint = Inl ''connect ECONNREFUSED''"
  "connectOverCDP stuckWorld endpoint = Inr stuckBrowser"
  "closeFailure chatBrowser = None"
  "closeFailure stuckBrowser = Some ''Target closed''"
  by (simp_all add: exampleProvider_def chatWorld_def refusingWorld_def stuckWorld_def
      chatBrowser_def stuckBrowser_def)

text \<open>
  The scrape on the chat page: the prompt is delivered, and the first wait ends in the
  time-out of the page although the frames it polls show a new reply block.
\<close>

lemma chat_scrape:
  "scrape exampleProvider chatBrowser ''hello''
     = (Inl ''page.waitForFunction: Timeout 30000ms exceeded.'',
        [Channel (OnLocator ''textarea#prompt-textarea'' (Click DEFAULT_TIMEOUT_MS)),
         Channel (OnLocator ''textarea#prompt-textarea'' EvaluateIsTextArea),
         Channel (OnLocator ''textarea#prompt-textarea'' (Fill ''hello'' (Some DEFAULT_TIMEOUT_MS))),
         Channel (OnLocator ''textarea#prompt-textarea'' (Press ''Enter''))])"
  unfolding scrape_def Let_def
  by (simp add: example_fields chat_selectPage chat_detectPlatform chat_injectPrompt
      awaitResponse_times_out chat_timeout andThen_def)

lemma chat_run:
  assumes "extractLatestUserPrompt context = ''hello''"
  shows "runBridge chatWorld exampleProvider exampleModel context None =
    (Inr (),
     [Channel (ConnectOverCDP DEFAULT_CDP_URL),
      Channel (OnLocator ''textarea#prompt-textarea'' (Click DEFAULT_TIMEOUT_MS)),
      Channel (OnLocator ''textarea#prompt-textarea'' EvaluateIsTextArea),
      Channel (OnLocator ''textarea#prompt-textarea'' (Fill ''hello'' (Some DEFAULT_TIMEOUT_MS))),
      Channel (OnLocator ''textarea#prompt-textarea'' (Press ''Enter'')),
      Channel BrowserClose,
      StreamPush (ErrorEvent Error
        (buildAssistantMessage
           ''Browser universal error: page.waitForFunction: Timeout 30000ms exceeded.''
           exampleModel None (Some Error) 7)),
      StreamEnd
        (buildAssistantMessage
           ''Browser universal error: page.waitForFunction: Timeout 30000ms exceeded.''
           exampleModel None (Some Error) 7)])"
proof -
  have a: "throwIfAborted None = Inr ()" by (simp add: throwIfAborted_def)
  have c: "connectOverCDP chatWorld (cdpUrl exampleProvider) = Inr chatBrowser"
    by (simp add: example_fields)
  have s: "fst (scrape exampleProvider chatBrowser ''hello'')
             = Inl ''page.waitForFunction: Timeout 30000ms exceeded.''"
    by (simp add: chat_scrape)
  show ?thesis
    using runBridge_scrape_failed [OF assms _ a c s, of exampleModel]
    by (simp add: chat_scrape publishError_effects example_fields)
qed

lemma refused_run:
  assumes "extractLatestUserPrompt context \<noteq> []"
  shows "runBridge refusingWorld exampleProvider exampleModel context None =
    (Inr (),
     [Channel (ConnectOverCDP DEFAULT_CDP_URL),
      StreamPush (ErrorEvent Error
        (buildAssistantMessage ''Browser universal error: connect ECONNREFUSED'' exampleModel None
           (Some Error) 7)),
      StreamEnd
        (buildAssistantMessage ''Browser universal error: connect ECONNREFUSED'' exampleModel None
           (Some Error) 7)])"
proof -
  have a: "throwIfAborted None = Inr ()" by (simp add: throwIfAborted_def)
  have c: "connectOverCDP refusingWorld (cdpUrl exampleProvider) = Inl ''connect ECONNREFUSED''"
    by (simp add: refusingWorld_def)
  show ?thesis
    using runBridge_connect_failed [OF assms a c, of exampleModel]
    by (simp add: publishError_effects example_fields)
qed


text \<open>
  The run in the world whose browser has no page and rejects its closing: the failure of
  the page selection is replaced by the failure of the close.
\<close>

lemma stuck_scrape:
  "scrape self stuckBrowser prompt
     = (Inl ''No open pages found in the connected Chrome instance.'', [])"
  by (simp add: scrape_def selectPage_def stuckBrowser_def Let_def step_defs)

lemma stuck_run:
  assumes "extractLatestUserPrompt context \<noteq> []"
  shows "runBridge stuckWorld exampleProvider exampleModel context None =
    (Inr (),
     [Channel (ConnectOverCDP DEFAULT_CDP_URL),
      Channel BrowserClose,
      StreamPush (ErrorEvent Error
        (buildAssistantMessage ''Browser universal error: Target closed'' exampleModel None
           (Some Error) 7)),
      StreamEnd
        (buildAssistantMessage ''Browser universal error: Target closed'' exampleModel None
           (Some Error) 7)])"
proof -
  have a: "throwIfAborted None = Inr ()" by (simp add: throwIfAborted_def)
  have c: "connectOverCDP stuckWorld (cdpUrl exampleProvider) = Inr stuckBrowser"
    by (simp add: example_fields)
  have s: "fst (scrape exampleProvider stuckBrowser (extractLatestUserPrompt context))
             = Inl ''No open pages found in the connected Chrome instance.''"
    by (simp add: stuck_scrape)
  show ?thesis
    using runBridge_scrape_failed [OF refl assms a c s, of exampleModel]
    by (simp add: stuck_scrape publishError_effects example_fields)
qed

subsection \<open>Closing the channel\<close>

text \<open>
  Claim C9, as the code has it. When the prompt is not empty and the run is not aborted:
  if the connection is made, the calls on the channel are the connection, the calls of the
  scrape -- none of which closes the browser -- and then one \<open>close\<close>, whether the scrape
  succeeded or failed; if the connection fails, the run is exactly the attempt to connect,
  one push of an error event with the stop reason \<open>error\<close> and the end of the stream, and
  nothing is closed, as no channel was handed out.
\<close>

theorem channel_closed_once_acquired:
  assumes "extractLatestUserPrompt context = prompt" and "prompt \<noteq> []"
      and "throwIfAborted signal = Inr ()"
  shows "case connectOverCDP world (cdpUrl self) of
           Inr browser \<Rightarrow>
             channelCalls (snd (runBridge world self model context signal))
               = ConnectOverCDP (cdpUrl self) # channelCalls (snd (scrape self browser prompt))
                   @ [BrowserClose]
             \<and> BrowserClose \<notin> set (channelCalls (snd (scrape self browser prompt)))
         | Inl m \<Rightarrow>
             runBridge world self model context signal
               = (Inr (),
                  [Channel (ConnectOverCDP (cdpUrl self)),
                   StreamPush (ErrorEvent Error
                     (buildAssistantMessage (''Browser universal error: '' @ m) model None
                        (Some Error) (dateNow world))),
                   StreamEnd
                     (buildAssistantMessage (''Browser universal error: '' @ m) model None
                        (Some Error) (dateNow world))])
             \<and> stopReason
                  (buildAssistantMessage (''Browser universal error: '' @ m) model None
                     (Some Error) (dateNow world)) = Error"
proof (cases "connectOverCDP world (cdpUrl self)")
  case (Inl m)
  then show ?thesis
    using runBridge_connect_failed [OF _ assms(3) Inl, of "context" model] assms(1,2)
    by (simp add: publishError_effects buildAssistantMessage_fields)
next
  case (Inr browser)
  have "channelCalls (snd (runBridge world self model context signal))
      = ConnectOverCDP (cdpUrl self) # channelCalls (snd (scrape self browser prompt))
          @ [BrowserClose]"
  proof -
    from runBridge_connected [OF assms Inr, of model]
    obtain m where "runBridge world self model context signal =
        (Inr (), Channel (ConnectOverCDP (cdpUrl self)) # snd (scrape self browser prompt)
                   @ Channel BrowserClose
                   # snd (publishError model (dateNow world)
                            (''Browser universal error: ''
                               @ (case closeFailure browser of Some c \<Rightarrow> c | None \<Rightarrow> m))))"
      by blast
    then show ?thesis
      by (simp add: channelCalls_append publishError_effects)
  qed
  with Inr show ?thesis by (simp add: scrape_never_closes)
qed

text \<open>The run on the chat page, and the run in the world that refuses the connection.\<close>

theorem channel_closed_once_acquired_witness:
  "extractLatestUserPrompt helloContext = ''hello''
   \<and> throwIfAborted None = Inr ()
   \<and> channelCalls (snd (runBridge chatWorld exampleProvider exampleModel helloContext None))
       = [ConnectOverCDP DEFAULT_CDP_URL,
          OnLocator ''textarea#prompt-textarea'' (Click DEFAULT_TIMEOUT_MS),
          OnLocator ''textarea#prompt-textarea'' EvaluateIsTextArea,
          OnLocator ''textarea#prompt-textarea'' (Fill ''hello'' (Some DEFAULT_TIMEOUT_MS)),
          OnLocator ''textarea#prompt-textarea'' (Press ''Enter''),
          BrowserClose]
   \<and> channelCalls (snd (runBridge refusingWorld exampleProvider exampleModel helloContext None))
       = [ConnectOverCDP DEFAULT_CDP_URL]"
proof -
  have p: "extractLatestUserPrompt helloContext = ''hello''" by (rule hello_prompt)
  have a: "throwIfAborted None = Inr ()" by (simp add: throwIfAborted_def)
  have one: "channelCalls (snd (runBridge chatWorld exampleProvider exampleModel helloContext None))
       = [ConnectOverCDP DEFAULT_CDP_URL,
          OnLocator ''textarea#prompt-textarea'' (Click DEFAULT_TIMEOUT_MS),
          OnLocator ''textarea#prompt-textarea'' EvaluateIsTextArea,
          OnLocator ''textarea#prompt-textarea'' (Fill ''hello'' (Some DEFAULT_TIMEOUT_MS)),
          OnLocator ''textarea#prompt-textarea'' (Press ''Enter''),
          BrowserClose]"
    using channel_closed_once_acquired [OF p _ a, of chatWorld exampleProvider exampleModel]
    by (simp add: example_fields chat_scrape)
  have two: "channelCalls (snd (runBridge refusingWorld exampleProvider exampleModel helloContext None))
       = [ConnectOverCDP DEFAULT_CDP_URL]"
    using channel_closed_once_acquired [OF p _ a, of refusingWorld exampleProvider exampleModel]
    by (simp add: example_fields)
  from p a one two show ?thesis by simp
qed

text \<open>
  Against claim C9 as worded: in the world that refuses the connection the run never calls
  \<open>close\<close>; there is no browser to call it on.
\<close>

theorem release_without_handle_counterexample:
  "connectOverCDP refusingWorld (cdpUrl exampleProvider) = Inl ''connect ECONNREFUSED''
   \<and> BrowserClose \<notin> set (channelCalls
        (snd (runBridge refusingWorld exampleProvider exampleModel helloContext None)))"
  by (simp add: refused_run hello_prompt example_fields)

subsection \<open>The prompt\<close>

lemma scanMessages_find:
  "scanMessages ms =
    (case find (\<lambda>m. role m = UserRole
                    \<and> (if isParts (content m) then trim (turnText m) \<noteq> [] else True)) ms of
       None \<Rightarrow> []
     | Some m \<Rightarrow> trim (turnText m))"
  by (induction ms) (auto simp: turnText_def Let_def split: Content.splits)

lemma extractLatestUserPrompt_usable:
  "extractLatestUserPrompt context =
    (case latestUsableUserTurn context of None \<Rightarrow> [] | Some m \<Rightarrow> trim (turnText m))"
  by (simp add: extractLatestUserPrompt_def latestUsableUserTurn_def scanMessages_find)

text \<open>
  Claim C2, as the code has it. The prompt extraction passes over a user turn given as
  content parts when it has no text but white space, and goes on to the user turn before
  it. When the latest user turn it does not pass over is blank, or when there is none, the
  prompt is empty and the whole run is one push of an error event, with the stop reason
  \<open>error\<close> and the text \<open>Browser universal: empty prompt.\<close>, and the end of the stream:
  no call is made on the channel.
\<close>

theorem blank_prompt_short_circuit:
  assumes "case latestUsableUserTurn context of None \<Rightarrow> True | Some m \<Rightarrow> blankTurn m"
  shows "extractLatestUserPrompt context = []
       \<and> runBridge world self model context signal
           = (Inr (),
              [StreamPush (ErrorEvent Error
                 (buildAssistantMessage ''Browser universal: empty prompt.'' model None (Some Error)
                    (dateNow world))),
               StreamEnd
                 (buildAssistantMessage ''Browser universal: empty prompt.'' model None (Some Error)
                    (dateNow world))])
       \<and> channelCalls (snd (runBridge world self model context signal)) = []
       \<and> stopReason
            (buildAssistantMessage ''Browser universal: empty prompt.'' model None (Some Error)
               (dateNow world)) = Error"
proof -
  have e: "extractLatestUserPrompt context = []"
    using assms by (simp add: extractLatestUserPrompt_usable blankTurn_def split: option.splits)
  then have "runBridge world self model context signal
      = publishError model (dateNow world) ''Browser universal: empty prompt.''"
    by (rule runBridge_empty_prompt)
  with e show ?thesis by (simp add: publishError_effects buildAssistantMessage_fields)
qed

lemma blankPlain_usable:
  "latestUsableUserTurn blankPlainContext = Some \<lparr>role = UserRole, content = Plain ''  ''\<rparr>"
  by (simp add: latestUsableUserTurn_def blankPlainContext_def)

text \<open>A conversation whose latest user turn is a plain text of two spaces.\<close>

theorem blank_prompt_short_circuit_witness:
  "(case latestUsableUserTurn blankPlainContext of None \<Rightarrow> True | Some m \<Rightarrow> blankTurn m)
   \<and> runBridge chatWorld exampleProvider exampleModel blankPlainContext None
       = (Inr (),
          [StreamPush (ErrorEvent Error
             (buildAssistantMessage ''Browser universal: empty prompt.'' exampleModel None
                (Some Error) 7)),
           StreamEnd
             (buildAssistantMessage ''Browser universal: empty prompt.'' exampleModel None
                (Some Error) 7)])
   \<and> channelCalls (snd (runBridge chatWorld exampleProvider exampleModel blankPlainContext None))
       = []"
proof -
  have h: "case latestUsableUserTurn blankPlainContext of None \<Rightarrow> True | Some m \<Rightarrow> blankTurn m"
    by (simp add: blankPlain_usable blankTurn_def turnText_def text_defs)
  from blank_prompt_short_circuit [OF h, of chatWorld exampleProvider exampleModel None] h
  show ?thesis by (simp add: example_fields)
qed

lemma blankParts_prompt: "extractLatestUserPrompt blankPartsContext = ''hello''"
  by (simp add: extractLatestUserPrompt_def blankPartsContext_def text_defs)

text \<open>
  Against claim C2 as worded: the latest user turn of this conversation is a part list
  with nothing but two spaces, yet the bridge takes the earlier user turn \<open>hello\<close> as the
  prompt, opens the channel and drives the page.
\<close>

theorem blank_parts_turn_counterexample:
  "latestUserTurn blankPartsContext
     = Some \<lparr>role = UserRole, content = Parts [TextItem ''  '', OtherItem]\<rparr>
   \<and> blankTurn \<lparr>role = UserRole, content = Parts [TextItem ''  '', OtherItem]\<rparr>
   \<and> channelCalls (snd (runBridge chatWorld exampleProvider exampleModel blankPartsContext None))
       = [ConnectOverCDP DEFAULT_CDP_URL,
          OnLocator ''textarea#prompt-textarea'' (Click DEFAULT_TIMEOUT_MS),
          OnLocator ''textarea#prompt-textarea'' EvaluateIsTextArea,
          OnLocator ''textarea#prompt-textarea'' (Fill ''hello'' (Some DEFAULT_TIMEOUT_MS)),
          OnLocator ''textarea#prompt-textarea'' (Press ''Enter''),
          BrowserClose]"
proof -
  have "latestUserTurn blankPartsContext
      = Some \<lparr>role = UserRole, content = Parts [TextItem ''  '', OtherItem]\<rparr>"
    by (simp add: latestUserTurn_def blankPartsContext_def)
  moreover have "blankTurn \<lparr>role = UserRole, content = Parts [TextItem ''  '', OtherItem]\<rparr>"
    by (simp add: blankTurn_def turnText_def text_defs)
  ultimately show ?thesis by (simp add: chat_run [OF blankParts_prompt])
qed

subsection \<open>Platform detection\<close>

lemma find_filter_None:
  "find P (filter Q xs) = None \<longleftrightarrow> (\<forall>x \<in> set xs. Q x \<longrightarrow> \<not> P x)"
  by (auto simp: find_None_iff)

lemma find_Some_holds: "find P xs = Some x \<Longrightarrow> P x \<and> x \<in> set xs"
  by (auto simp: find_Some_iff)

lemma find_first:
  assumes "y \<in> set xs" and "P y" and "\<forall>z \<in> set (takeWhile (\<lambda>x. x \<noteq> y) xs). \<not> P z"
  shows "find P xs = Some y"
  using assms by (induction xs) auto

text \<open>
  Claim C5, as the code has it. Take a page whose URL matches a hint of the registered
  platform \<open>X\<close>, none of whose URL-matched candidates (by URL or title) fingerprint-matches,
  and whose document matches the fingerprint rules of the registered platform \<open>Y\<close>. Then
  the detector returns the first profile in registry order whose fingerprint rules match
  the document; that profile is not \<open>X\<close>, and it is \<open>Y\<close> when no profile before \<open>Y\<close> in the
  registry fingerprint-matches.
\<close>

theorem fingerprint_preferred_over_url:
  assumes "X \<in> set PLATFORM_PROFILES"
      and "list_ex (\<lambda>hint. test hint (url page)) (urlHints X)"
      and "\<forall>p \<in> set PLATFORM_PROFILES.
             list_ex (\<lambda>hint. test hint (url page)
                              \<or> test hint (case title page of Inl e \<Rightarrow> [] | Inr t \<Rightarrow> t))
               (urlHints p)
             \<longrightarrow> \<not> matchesDomHints (document page) (orEmpty (domHintsO (selectors p)))"
      and "Y \<in> set PLATFORM_PROFILES"
      and "matchesDomHints (document page) (orEmpty (domHintsO (selectors Y)))"
  shows "find (\<lambda>p. matchesDomHints (document page) (orEmpty (domHintsO (selectors p))))
           PLATFORM_PROFILES = Some (detectPlatform page regex)
       \<and> matchesDomHints (document page)
            (orEmpty (domHintsO (selectors (detectPlatform page regex))))
       \<and> detectPlatform page regex \<noteq> X
       \<and> ((\<forall>Z \<in> set (takeWhile (\<lambda>p. p \<noteq> Y) PLATFORM_PROFILES).
              \<not> matchesDomHints (document page) (orEmpty (domHintsO (selectors Z))))
           \<longrightarrow> detectPlatform page regex = Y)"
proof -
  let ?fp = "\<lambda>p. matchesDomHints (document page) (orEmpty (domHintsO (selectors p)))"
  let ?matched = "\<lambda>p. list_ex (\<lambda>hint. test hint (url page)
                              \<or> test hint (case title page of Inl e \<Rightarrow> [] | Inr t \<Rightarrow> t))
                     (urlHints p)"
  have none: "find ?fp (filter ?matched PLATFORM_PROFILES) = None"
    using assms(3) by (simp add: find_filter_None)
  obtain W where W: "find ?fp PLATFORM_PROFILES = Some W"
    using assms(4,5) by (cases "find ?fp PLATFORM_PROFILES") (auto simp: find_None_iff)
  have d: "detectPlatform page regex = W"
    by (simp add: detectPlatform_def Let_def none W)
  have fpW: "?fp W" and inW: "W \<in> set PLATFORM_PROFILES"
    using find_Some_holds [OF W] by simp_all
  have "?matched X" using assms(2) by (auto simp: list_ex_iff)
  then have "\<not> ?fp X" using assms(1,3) by blast
  then have "W \<noteq> X" using fpW by auto
  moreover have "W = Y"
    if "\<forall>Z \<in> set (takeWhile (\<lambda>p. p \<noteq> Y) PLATFORM_PROFILES). \<not> ?fp Z"
    using find_first [of Y PLATFORM_PROFILES ?fp, OF assms(4,5) that] W by simp
  ultimately show ?thesis using W d fpW by simp
qed


lemmas profile_defs = PLATFORM_PROFILES_def CHATGPT_PROFILE_def CLAUDE_PROFILE_def GEMINI_PROFILE_def

lemma foreign_fingerprints:
  "\<not> matchesDomHints (document foreignPage) (orEmpty (domHintsO (selectors CHATGPT_PROFILE)))"
  "matchesDomHints (document foreignPage) (orEmpty (domHintsO (selectors CLAUDE_PROFILE)))"
  "matchesDomHints (document foreignPage) (orEmpty (domHintsO (selectors GEMINI_PROFILE)))"
  by (simp_all add: foreignPage_def foreignDocument_def profile_defs matchesDomHints_def
      orEmpty_def querySelector_def querySelectorAll_def)

lemma foreign_url_hints:
  "list_ex (\<lambda>hint. test hint (url foreignPage)) (urlHints CHATGPT_PROFILE)"
  "\<not> list_ex (\<lambda>hint. test hint (url foreignPage)
                     \<or> test hint (case title foreignPage of Inl e \<Rightarrow> [] | Inr t \<Rightarrow> t))
        (urlHints CLAUDE_PROFILE)"
  "\<not> list_ex (\<lambda>hint. test hint (url foreignPage)
                     \<or> test hint (case title foreignPage of Inl e \<Rightarrow> [] | Inr t \<Rightarrow> t))
        (urlHints GEMINI_PROFILE)"
  by (simp_all add: foreignPage_def chatPage_def profile_defs toLower_def)

text \<open>
  The page at a ChatGPT address with the marks of Claude and of Gemini in its document:
  the ChatGPT fingerprint does not match, and the detector returns the Claude profile, the
  first in the registry whose fingerprint matches.
\<close>

theorem fingerprint_preferred_over_url_witness:
  "CHATGPT_PROFILE \<in> set PLATFORM_PROFILES
   \<and> list_ex (\<lambda>hint. test hint (url foreignPage)) (urlHints CHATGPT_PROFILE)
   \<and> CLAUDE_PROFILE \<in> set PLATFORM_PROFILES
   \<and> matchesDomHints (document foreignPage) (orEmpty (domHintsO (selectors CLAUDE_PROFILE)))
   \<and> detectPlatform foreignPage DEFAULT_URL_REGEX = CLAUDE_PROFILE"
proof -
  have x: "CHATGPT_PROFILE \<in> set PLATFORM_PROFILES" and y: "CLAUDE_PROFILE \<in> set PLATFORM_PROFILES"
    by (simp_all add: PLATFORM_PROFILES_def)
  have c: "\<forall>p \<in> set PLATFORM_PROFILES.
             list_ex (\<lambda>hint. test hint (url foreignPage)
                              \<or> test hint (case title foreignPage of Inl e \<Rightarrow> [] | Inr t \<Rightarrow> t))
               (urlHints p)
             \<longrightarrow> \<not> matchesDomHints (document foreignPage) (orEmpty (domHintsO (selectors p)))"
    using foreign_fingerprints(1) foreign_url_hints(2,3) by (simp add: PLATFORM_PROFILES_def)
  have "CHATGPT_PROFILE \<noteq> CLAUDE_PROFILE"
    by (simp add: CHATGPT_PROFILE_def CLAUDE_PROFILE_def)
  then have f: "\<forall>Z \<in> set (takeWhile (\<lambda>p. p \<noteq> CLAUDE_PROFILE) PLATFORM_PROFILES).
      \<not> matchesDomHints (document foreignPage) (orEmpty (domHintsO (selectors Z)))"
    using foreign_fingerprints(1) by (simp add: PLATFORM_PROFILES_def)
  from fingerprint_preferred_over_url
         [OF x foreign_url_hints(1) c y foreign_fingerprints(2), of DEFAULT_URL_REGEX] f
  have "detectPlatform foreignPage DEFAULT_URL_REGEX = CLAUDE_PROFILE" by blast
  with x y foreign_url_hints(1) foreign_fingerprints(2) show ?thesis by simp
qed

text \<open>
  Against claim C5 as worded: the page at a ChatGPT address matches no fingerprint rule of
  ChatGPT, the only candidate by URL and title, and it matches the fingerprint rules of
  Gemini; yet the detector returns the Claude profile, which comes before Gemini in the
  registry and whose fingerprint rules match the document as well.
\<close>

theorem later_fingerprint_counterexample:
  "test (ILiterals [''chatgpt.com'']) (url foreignPage)
   \<and> title foreignPage = Inr ''ChatGPT''
   \<and> \<not> test (ILiterals [''claude.ai'']) (url foreignPage)
   \<and> \<not> test (ILiterals [''claude.ai'']) ''ChatGPT''
   \<and> \<not> test (ILiterals [''gemini.google.com'']) (url foreignPage)
   \<and> \<not> test (ILiterals [''gemini.google.com'']) ''ChatGPT''
   \<and> \<not> test (ILiterals [''bard.google.com'']) (url foreignPage)
   \<and> \<not> test (ILiterals [''bard.google.com'']) ''ChatGPT''
   \<and> \<not> matchesDomHints (document foreignPage) (orEmpty (domHintsO (selectors CHATGPT_PROFILE)))
   \<and> matchesDomHints (document foreignPage) (orEmpty (domHintsO (selectors GEMINI_PROFILE)))
   \<and> ident GEMINI_PROFILE = Gemini
   \<and> ident (detectPlatform foreignPage DEFAULT_URL_REGEX) = Claude"
proof -
  have "detectPlatform foreignPage DEFAULT_URL_REGEX = CLAUDE_PROFILE"
    by (simp add: detectPlatform_def foreignPage_def chatPage_def foreignDocument_def
        profile_defs toLower_def matchesDomHints_def orEmpty_def querySelector_def
        querySelectorAll_def)
  then have "ident (detectPlatform foreignPage DEFAULT_URL_REGEX) = Claude"
    by (simp add: CLAUDE_PROFILE_def)
  moreover have "ident GEMINI_PROFILE = Gemini" by (simp add: GEMINI_PROFILE_def)
  moreover have "test (ILiterals [''chatgpt.com'']) (url foreignPage)"
    "title foreignPage = Inr ''ChatGPT''"
    "\<not> test (ILiterals [''claude.ai'']) (url foreignPage)"
    "\<not> test (ILiterals [''claude.ai'']) ''ChatGPT''"
    "\<not> test (ILiterals [''gemini.google.com'']) (url foreignPage)"
    "\<not> test (ILiterals [''gemini.google.com'']) ''ChatGPT''"
    "\<not> test (ILiterals [''bard.google.com'']) (url foreignPage)"
    "\<not> test (ILiterals [''bard.google.com'']) ''ChatGPT''"
    by (simp_all add: foreignPage_def chatPage_def toLower_def)
  ultimately show ?thesis using foreign_fingerprints(1,3) by simp
qed

subsection \<open>Configuration\<close>

text \<open>
  Claim C8, as the code has it. The endpoint is the option if supplied, else the variable
  \<open>OPENCLAW_BROWSER_UNIVERSAL_CDP_URL\<close> if set, else \<open>http://127.0.0.1:9222\<close>. The URL
  pattern is the option if supplied, else the pattern compiled from the trimmed variable
  \<open>OPENCLAW_BROWSER_UNIVERSAL_URL_REGEX\<close> if that is set, not blank and compiles, else the
  default pattern: a text that does not compile counts as absent. The timeout is the
  option if supplied, else 120000 milliseconds, whatever the environment holds.
\<close>

theorem configuration_precedence:
  "(opt_cdpUrl options = Some u \<longrightarrow> cdpUrl (newProvider compile env (Some options)) = u)
   \<and> (opt_cdpUrl options = None \<and> env ''OPENCLAW_BROWSER_UNIVERSAL_CDP_URL'' = Some u
       \<longrightarrow> cdpUrl (newProvider compile env (Some options)) = u)
   \<and> (opt_cdpUrl options = None \<and> env ''OPENCLAW_BROWSER_UNIVERSAL_CDP_URL'' = None
       \<longrightarrow> cdpUrl (newProvider compile env (Some options)) = ''http://127.0.0.1:9222'')
   \<and> (opt_urlRegex options = Some r \<longrightarrow> urlRegex (newProvider compile env (Some options)) = r)
   \<and> (opt_urlRegex options = None \<and> env ''OPENCLAW_BROWSER_UNIVERSAL_URL_REGEX'' = Some v
       \<and> trim v \<noteq> [] \<and> compile (trim v) = Some r
       \<longrightarrow> urlRegex (newProvider compile env (Some options)) = r)
   \<and> (opt_urlRegex options = None \<and> env ''OPENCLAW_BROWSER_UNIVERSAL_URL_REGEX'' = Some v
       \<and> (trim v = [] \<or> compile (trim v) = None)
       \<longrightarrow> urlRegex (newProvider compile env (Some options)) = DEFAULT_URL_REGEX)
   \<and> (opt_urlRegex options = None \<and> env ''OPENCLAW_BROWSER_UNIVERSAL_URL_REGEX'' = None
       \<longrightarrow> urlRegex (newProvider compile env (Some options)) = DEFAULT_URL_REGEX)
   \<and> (opt_timeoutMs options = Some t \<longrightarrow> timeoutMs (newProvider compile env (Some options)) = t)
   \<and> (opt_timeoutMs options = None
       \<longrightarrow> timeoutMs (newProvider compile env (Some options)) = 120000)
   \<and> cdpUrl (newProvider compile env None)
       = (case env ''OPENCLAW_BROWSER_UNIVERSAL_CDP_URL'' of
            Some e \<Rightarrow> e | None \<Rightarrow> ''http://127.0.0.1:9222'')
   \<and> timeoutMs (newProvider compile env None) = 120000"
  by (auto simp: newProvider_def resolveEnvRegex_def Let_def DEFAULT_CDP_URL_def
      DEFAULT_TIMEOUT_MS_def split: option.splits)

text \<open>
  Options that set nothing, in an environment that sets the endpoint and a pattern that
  does not compile.
\<close>

theorem configuration_precedence_witness:
  "cdpUrl (newProvider rejectingCompile (uniformEnv ''http://10.0.0.5:9333'')
       (Some \<lparr>opt_cdpUrl = None, opt_urlRegex = None, opt_timeoutMs = None\<rparr>))
     = ''http://10.0.0.5:9333''
   \<and> urlRegex (newProvider rejectingCompile (uniformEnv ''http://10.0.0.5:9333'')
       (Some \<lparr>opt_cdpUrl = None, opt_urlRegex = None, opt_timeoutMs = None\<rparr>))
     = DEFAULT_URL_REGEX
   \<and> timeoutMs (newProvider rejectingCompile (uniformEnv ''http://10.0.0.5:9333'')
       (Some \<lparr>opt_cdpUrl = None, opt_urlRegex = None, opt_timeoutMs = None\<rparr>))
     = 120000"
  using configuration_precedence [of
      "\<lparr>opt_cdpUrl = None, opt_urlRegex = None, opt_timeoutMs = None\<rparr>"
      "''http://10.0.0.5:9333''" rejectingCompile "uniformEnv ''http://10.0.0.5:9333''" undefined
      "''http://10.0.0.5:9333''" undefined]
  by (simp add: uniformEnv_def rejectingCompile_def)

text \<open>
  Against claim C8 as worded: with every variable of the environment set to \<open>5000\<close> and
  no options, the endpoint is taken from the environment, and the timeout is still the
  default.
\<close>

theorem timeout_env_override_counterexample:
  "cdpUrl (newProvider literalCompile (uniformEnv ''5000'') None) = ''5000''
   \<and> timeoutMs (newProvider literalCompile (uniformEnv ''5000'') None) = 120000"
  by (simp add: newProvider_def uniformEnv_def DEFAULT_TIMEOUT_MS_def)

subsection \<open>Trimming\<close>



subsection \<open>Extraction\<close>

lemma scanMatches_find:
  "scanMatches els = (case find hasText els of None \<Rightarrow> None | Some el \<Rightarrow> Some (elementText el))"
  by (induction els) (auto simp: trimmedText_def hasText_def elementText_def split: option.splits)

lemma find_rev:
  "find P (rev xs) = (if filter P xs = [] then None else Some (last (filter P xs)))"
  by (induction xs rule: rev_induct) auto

lemma filter_empty_list_ex: "filter P xs = [] \<longleftrightarrow> \<not> list_ex P xs"
  by (simp add: filter_empty_conv list_ex_iff)

lemma extract_characterised:
  "extractLatestAssistantText doc rules =
    (case find (\<lambda>rule. list_ex hasText (querySelectorAll doc rule)) rules of
       None \<Rightarrow> []
     | Some rule \<Rightarrow> elementText (last (filter hasText (querySelectorAll doc rule))))"
  by (induction rules) (simp_all add: scanMatches_find find_rev filter_empty_list_ex)

lemma hasText_elementText: "hasText el \<Longrightarrow> elementText el \<noteq> []"
  by (simp add: hasText_def elementText_def split: option.splits)

lemma extract_empty_iff:
  "extractLatestAssistantText doc rules = [] \<longleftrightarrow>
     \<not> list_ex (\<lambda>rule. list_ex hasText (querySelectorAll doc rule)) rules"
proof (cases "find (\<lambda>rule. list_ex hasText (querySelectorAll doc rule)) rules")
  case None
  then have "\<not> list_ex (\<lambda>rule. list_ex hasText (querySelectorAll doc rule)) rules"
    by (simp add: find_None_iff list_ex_iff)
  with None show ?thesis by (simp add: extract_characterised)
next
  case (Some rule)
  then have r: "list_ex hasText (querySelectorAll doc rule)" and "rule \<in> set rules"
    by (auto simp: find_Some_iff)
  then have ex: "list_ex (\<lambda>rule. list_ex hasText (querySelectorAll doc rule)) rules"
    by (auto simp: list_ex_iff)
  have "filter hasText (querySelectorAll doc rule) \<noteq> []"
    using r by (simp add: filter_empty_list_ex)
  then have "last (filter hasText (querySelectorAll doc rule))
      \<in> set (filter hasText (querySelectorAll doc rule))"
    by (rule last_in_set)
  then have "hasText (last (filter hasText (querySelectorAll doc rule)))" by simp
  then show ?thesis using Some ex by (simp add: extract_characterised hasText_elementText)
qed

lemma find_stronger:
  assumes "find P xs = Some r" and "\<And>x. Q x \<Longrightarrow> P x" and "Q r"
  shows "find Q xs = Some r"
  using assms by (induction xs) (auto split: if_splits)

lemma last_filter_keeps: "xs \<noteq> [] \<Longrightarrow> P (last xs) \<Longrightarrow> last (filter P xs) = last xs"
  by (induction xs rule: rev_induct) auto

lemma extract_last_of_first_rule:
  assumes "find (\<lambda>rule. querySelectorAll doc rule \<noteq> []) rules = Some rule"
      and "hasText (last (querySelectorAll doc rule))"
  shows "extractLatestAssistantText doc rules = elementText (last (querySelectorAll doc rule))"
proof -
  have ne: "querySelectorAll doc rule \<noteq> []" using assms(1) by (auto simp: find_Some_iff)
  then have "last (querySelectorAll doc rule) \<in> set (querySelectorAll doc rule)" by simp
  then have q: "list_ex hasText (querySelectorAll doc rule)"
    using assms(2) by (auto simp: list_ex_iff)
  have "find (\<lambda>rule. list_ex hasText (querySelectorAll doc rule)) rules = Some rule"
  proof (rule find_stronger [where P = "\<lambda>rule. querySelectorAll doc rule \<noteq> []"])
    show "find (\<lambda>rule. querySelectorAll doc rule \<noteq> []) rules = Some rule" by (rule assms(1))
    show "list_ex hasText (querySelectorAll doc x) \<Longrightarrow> querySelectorAll doc x \<noteq> []" for x
      by (auto simp: list_ex_iff)
    show "list_ex hasText (querySelectorAll doc rule)" by (rule q)
  qed
  moreover have "last (filter hasText (querySelectorAll doc rule)) = last (querySelectorAll doc rule)"
    using ne assms(2) by (rule last_filter_keeps)
  ultimately show ?thesis by (simp add: extract_characterised)
qed

lemma twoReplies_text: "extractLatestAssistantText twoReplies ASSISTANT_SELECTORS = ''second reply''"
  by (simp add: ASSISTANT_SELECTORS_def twoReplies_def querySelectorAll_def trimmedText_def
      shownElement_def text_defs)

text \<open>
  Claim C7, as the code has it. The extraction tries the rules in declared order and
  returns, for the first rule that matches an element whose trimmed text is not empty, the
  trimmed text of the last such element among its matches. So when the last element
  matched by the first rule that matches anything has text, the result is that element's
  trimmed text. The check that follows the extraction raises the failure
  \<open>Browser universal: no assistant response found.\<close> exactly when no rule matches an
  element with text, and hands on the extracted text otherwise. On the document with the
  two replies \<open>first reply\<close> and \<open>second reply\<close> the result is \<open>second reply\<close>.
\<close>

theorem extraction_last_element_with_text:
  "extractLatestAssistantText doc rules
     = (case find (\<lambda>rule. list_ex hasText (querySelectorAll doc rule)) rules of
          None \<Rightarrow> []
        | Some rule \<Rightarrow> elementText (last (filter hasText (querySelectorAll doc rule))))
   \<and> (find (\<lambda>rule. querySelectorAll doc rule \<noteq> []) rules = Some rule
       \<and> hasText (last (querySelectorAll doc rule))
       \<longrightarrow> extractLatestAssistantText doc rules = elementText (last (querySelectorAll doc rule)))
   \<and> checkedResponse page strategy
       = (if list_ex (\<lambda>rule. list_ex hasText (querySelectorAll (finalDocument page) rule))
               (assistant strategy)
          then (Inr (extractLatestAssistantText (finalDocument page) (assistant strategy)), [])
          else (Inl ''Browser universal: no assistant response found.'', []))
   \<and> extractLatestAssistantText twoReplies ASSISTANT_SELECTORS = ''second reply''"
proof -
  have check: "checkedResponse page strategy
       = (if list_ex (\<lambda>rule. list_ex hasText (querySelectorAll (finalDocument page) rule))
               (assistant strategy)
          then (Inr (extractLatestAssistantText (finalDocument page) (assistant strategy)), [])
          else (Inl ''Browser universal: no assistant response found.'', []))"
    using extract_empty_iff [of "finalDocument page" "assistant strategy"]
    by (simp add: checkedResponse_def Let_def ok_def throw_def)
  from extract_characterised [of doc rules] extract_last_of_first_rule [of doc rules rule]
    check twoReplies_text
  show ?thesis by blast
qed

lemma silent_strategy: "strategyOf exampleProvider silentPage = resolveSelectorStrategy CHATGPT_PROFILE"
proof -
  have "detectPlatform silentPage DEFAULT_URL_REGEX = detectPlatform chatPage DEFAULT_URL_REGEX"
    by (simp add: silentPage_def detectPlatform_def)
  then show ?thesis by (simp add: example_fields chat_detectPlatform)
qed

text \<open>
  The document with two replies under the rule \<open>article\<close>, and the check on the page whose
  reply blocks are blank after the waits.
\<close>

theorem extraction_last_element_with_text_witness:
  "find (\<lambda>rule. querySelectorAll twoReplies rule \<noteq> []) ASSISTANT_SELECTORS = Some ''article''
   \<and> hasText (last (querySelectorAll twoReplies ''article''))
   \<and> extractLatestAssistantText twoReplies ASSISTANT_SELECTORS
       = elementText (shownElement ''second reply'')
   \<and> \<not> list_ex (\<lambda>rule. list_ex hasText (querySelectorAll (finalDocument silentPage) rule))
          (assistant (strategyOf exampleProvider silentPage))
   \<and> checkedResponse silentPage (strategyOf exampleProvider silentPage)
       = (Inl ''Browser universal: no assistant response found.'', [])"
proof -
  have f: "find (\<lambda>rule. querySelectorAll twoReplies rule \<noteq> []) ASSISTANT_SELECTORS
      = Some ''article''"
    by (simp add: ASSISTANT_SELECTORS_def twoReplies_def querySelectorAll_def)
  have l: "last (querySelectorAll twoReplies ''article'') = shownElement ''second reply''"
    by (simp add: twoReplies_def querySelectorAll_def)
  have h: "hasText (last (querySelectorAll twoReplies ''article''))"
    unfolding l by (simp add: hasText_def shownElement_def text_defs)
  have e: "\<not> list_ex (\<lambda>rule. list_ex hasText (querySelectorAll (finalDocument silentPage) rule))
      (assistant (strategyOf exampleProvider silentPage))"
    unfolding silent_strategy
    by (simp add: chat_strategy ASSISTANT_SELECTORS_def silentPage_def hasText_def
        document_defs text_defs)
  note k = extraction_last_element_with_text [of twoReplies ASSISTANT_SELECTORS "''article''"
      silentPage "strategyOf exampleProvider silentPage"]
  from k f h have one: "extractLatestAssistantText twoReplies ASSISTANT_SELECTORS
          = elementText (last (querySelectorAll twoReplies ''article''))"
    by blast
  from k have "checkedResponse silentPage (strategyOf exampleProvider silentPage)
       = (if list_ex (\<lambda>rule. list_ex hasText (querySelectorAll (finalDocument silentPage) rule))
               (assistant (strategyOf exampleProvider silentPage))
          then (Inr (extractLatestAssistantText (finalDocument silentPage)
                       (assistant (strategyOf exampleProvider silentPage))), [])
          else (Inl ''Browser universal: no assistant response found.'', []))"
    by blast
  with e have two: "checkedResponse silentPage (strategyOf exampleProvider silentPage)
       = (Inl ''Browser universal: no assistant response found.'', [])"
    by simp
  from f h one e two show ?thesis unfolding l by simp
qed

text \<open>
  Against claim C7 as worded: under the rule \<open>article\<close> this document has the elements
  \<open>first reply\<close> and, last, one of white space only; the trimmed text of the last matching
  element is empty, and the extraction returns the text of the earlier element.
\<close>

theorem earlier_element_counterexample:
  "querySelectorAll blankLastReply ''article''
     = [shownElement ''first reply'', shownElement ''   '']
   \<and> elementText (shownElement ''   '') = []
   \<and> elementText (shownElement ''first reply'') = ''first reply''
   \<and> extractLatestAssistantText blankLastReply [''article''] = ''first reply''"
  by (simp add: blankLastReply_def querySelectorAll_def elementText_def trimmedText_def
      shownElement_def text_defs)


subsection \<open>Completion\<close>

lemma querySelector_None: "querySelector doc rule = None \<longleftrightarrow> querySelectorAll doc rule = []"
  by (simp add: querySelector_def split: list.splits)

lemma isVisible_matches: "isVisible doc rule \<Longrightarrow> querySelectorAll doc rule \<noteq> []"
  by (auto simp: isVisible_def querySelector_def split: list.splits)

text \<open>
  Claim C6, against the code. Given both rule lists, the page function of the second wait
  returns true exactly when no stop rule has a visible first match and either some send
  rule has a visible first match or no send rule matches any element. But the wait hands
  the page function the stop rules alone: the send rules arrive in the place of the
  options. The page function finds its second parameter undefined and throws when it is
  first evaluated, on every document. So the wait never concludes that the response is
  finished: as soon as it observes a document it rejects with the error thrown, also when
  no stop rule and no send rule matches any element of that document, where the page
  function given both rule lists returns true.
\<close>

theorem completion_wait_rejects:
  "completionReached stopSelectors (Some sendSelectors) doc
     = Returns (\<not> list_ex (isVisible doc) stopSelectors
                \<and> (list_ex (isVisible doc) sendSelectors
                   \<or> \<not> list_ex (\<lambda>rule. querySelectorAll doc rule \<noteq> []) sendSelectors))
   \<and> completionReached stopSelectors None doc = ThrowsTypeError
   \<and> waitForCompletion page timeout stopSelectors sendSelectors \<noteq> Inr ()
   \<and> (completionFrames page PLAYWRIGHT_DEFAULT_TIMEOUT = doc # frames
       \<and> list_all (\<lambda>rule. querySelectorAll doc rule = []) stopSelectors
       \<and> list_all (\<lambda>rule. querySelectorAll doc rule = []) sendSelectors
       \<longrightarrow> completionReached stopSelectors (Some sendSelectors) doc = Returns True
         \<and> waitForCompletion page timeout stopSelectors sendSelectors
             = Inl (thrownDiagnostic page))"
proof -
  have a: "completionReached stopSelectors (Some sendSelectors) doc
     = Returns (\<not> list_ex (isVisible doc) stopSelectors
                \<and> (list_ex (isVisible doc) sendSelectors
                   \<or> \<not> list_ex (\<lambda>rule. querySelectorAll doc rule \<noteq> []) sendSelectors))"
    by (simp add: completionReached_def Let_def querySelector_None)
  have b: "completionReached stopSelectors None doc = ThrowsTypeError"
    by (rule completionReached_undefined)
  have c: "waitForCompletion page timeout stopSelectors sendSelectors \<noteq> Inr ()"
    by (simp add: waitForCompletion_rejects split: list.splits)
  have d: "completionReached stopSelectors (Some sendSelectors) doc = Returns True"
    if "list_all (\<lambda>rule. querySelectorAll doc rule = []) stopSelectors"
      and "list_all (\<lambda>rule. querySelectorAll doc rule = []) sendSelectors"
  proof -
    have "\<not> list_ex (isVisible doc) stopSelectors"
      using that(1) isVisible_matches [of doc] by (auto simp: list_all_iff list_ex_iff)
    moreover have "\<not> list_ex (\<lambda>rule. querySelectorAll doc rule \<noteq> []) sendSelectors"
      using that(2) by (auto simp: list_all_iff list_ex_iff)
    ultimately show ?thesis unfolding a by simp
  qed
  have e: "waitForCompletion page timeout stopSelectors sendSelectors = Inl (thrownDiagnostic page)"
    if "completionFrames page PLAYWRIGHT_DEFAULT_TIMEOUT = doc # frames"
    using that by (simp add: waitForCompletion_rejects)
  from a b c d e show ?thesis by blast
qed

text \<open>
  A page whose document, at the first poll of the second wait, is empty: the page function
  given both rule lists returns true of it, and the wait rejects.
\<close>

theorem completion_wait_rejects_witness:
  "completionFrames idlePage PLAYWRIGHT_DEFAULT_TIMEOUT = [emptyDocument]
   \<and> list_all (\<lambda>rule. querySelectorAll emptyDocument rule = []) STOP_SELECTORS
   \<and> list_all (\<lambda>rule. querySelectorAll emptyDocument rule = []) SEND_SELECTORS
   \<and> completionReached STOP_SELECTORS (Some SEND_SELECTORS) emptyDocument = Returns True
   \<and> waitForCompletion idlePage DEFAULT_TIMEOUT_MS STOP_SELECTORS SEND_SELECTORS
       = Inl ''page.waitForFunction: TypeError: sendSelectors is undefined''"
proof -
  have e: "list_all (\<lambda>rule. querySelectorAll emptyDocument rule = []) rules" for rules
    by (simp add: querySelectorAll_def emptyDocument_def list_all_iff)
  have f: "completionFrames idlePage PLAYWRIGHT_DEFAULT_TIMEOUT = emptyDocument # []"
    by (simp add: idlePage_def)
  have t: "thrownDiagnostic idlePage = ''page.waitForFunction: TypeError: sendSelectors is undefined''"
    by (simp add: idlePage_def chatPage_def)
  from completion_wait_rejects [of STOP_SELECTORS SEND_SELECTORS emptyDocument idlePage
      DEFAULT_TIMEOUT_MS "[]"] e [of STOP_SELECTORS] e [of SEND_SELECTORS] f
  have "completionReached STOP_SELECTORS (Some SEND_SELECTORS) emptyDocument = Returns True
      \<and> waitForCompletion idlePage DEFAULT_TIMEOUT_MS STOP_SELECTORS SEND_SELECTORS
          = Inl (thrownDiagnostic idlePage)"
    by blast
  with e [of STOP_SELECTORS] e [of SEND_SELECTORS] f t show ?thesis
    by simp
qed

subsection \<open>The stream of a run\<close>



subsection \<open>Failures\<close>

text \<open>
  Claim C3, as the code has it. When the abort check fails, or the connection, or, once
  connected, the selection of the page, the location of the input or an action on it, or
  a wait, the bridge returns normally, and what it does on the stream is exactly one push
  of an error event followed by the end of the stream; the message of the event has the
  stop reason \<open>error\<close>, and its text is the prefix \<open>Browser universal error: \<close> followed by
  a diagnostic. When no channel was acquired, or closing the channel succeeds, that is the
  diagnostic of the failure; when closing the channel fails too, it is the diagnostic of
  the close, which takes the place of the failure's.
\<close>

theorem failures_become_error_event:
  assumes "extractLatestUserPrompt context = prompt" and "prompt \<noteq> []"
      and "throwIfAborted signal = Inl m \<and> closing = None
         \<or> throwIfAborted signal = Inr () \<and> connectOverCDP world (cdpUrl self) = Inl m
           \<and> closing = None
         \<or> throwIfAborted signal = Inr () \<and> connectOverCDP world (cdpUrl self) = Inr browser
           \<and> closing = closeFailure browser
           \<and> (fst (selectPage self browser) = Inl m
              \<or> fst (selectPage self browser) = Inr page
                \<and> (fst (injectPrompt self page (input (strategyOf self page)) prompt) = Inl m
                   \<or> fst (injectPrompt self page (input (strategyOf self page)) prompt) = Inr ()
                     \<and> fst (awaitResponse self page (strategyOf self page)
                              (countAssistantBlocks (document page)
                                (assistant (strategyOf self page)))) = Inl m))"
  shows "fst (runBridge world self model context signal) = Inr ()
       \<and> filter onStream (snd (runBridge world self model context signal))
           = [StreamPush (ErrorEvent Error
                (buildAssistantMessage
                   (''Browser universal error: '' @ (case closing of None \<Rightarrow> m | Some c \<Rightarrow> c))
                   model None (Some Error) (dateNow world))),
              StreamEnd
                (buildAssistantMessage
                   (''Browser universal error: '' @ (case closing of None \<Rightarrow> m | Some c \<Rightarrow> c))
                   model None (Some Error) (dateNow world))]
       \<and> msg_content
            (buildAssistantMessage
               (''Browser universal error: '' @ (case closing of None \<Rightarrow> m | Some c \<Rightarrow> c))
               model None (Some Error) (dateNow world))
           = [TextItem (''Browser universal error: '' @ (case closing of None \<Rightarrow> m | Some c \<Rightarrow> c))]
       \<and> stopReason
            (buildAssistantMessage
               (''Browser universal error: '' @ (case closing of None \<Rightarrow> m | Some c \<Rightarrow> c))
               model None (Some Error) (dateNow world))
           = Error"
proof -
  have w: "fst (awaitResponse self page (strategyOf self page)
                 (countAssistantBlocks (document page) (assistant (strategyOf self page)))) = Inl m
           \<Longrightarrow> m = timeoutDiagnostic page PLAYWRIGHT_DEFAULT_TIMEOUT"
    by (simp add: awaitResponse_times_out)
  consider (aborted) "throwIfAborted signal = Inl m" "closing = None"
    | (refused) "throwIfAborted signal = Inr ()" "connectOverCDP world (cdpUrl self) = Inl m"
        "closing = None"
    | (scrape) "throwIfAborted signal = Inr ()" "connectOverCDP world (cdpUrl self) = Inr browser"
        "closing = closeFailure browser" "fst (scrape self browser prompt) = Inl m"
    using assms(3) w scrape_fails_iff [of self browser prompt m] by blast
  then show ?thesis
  proof cases
    case aborted
    show ?thesis
      using runBridge_aborted [OF _ aborted(1), of "context" world self model] assms(1,2)
      by (simp add: publishError_effects buildAssistantMessage_fields aborted(2))
  next
    case refused
    show ?thesis
      using runBridge_connect_failed [OF _ refused(1,2), of "context" model] assms(1,2)
      by (simp add: publishError_effects buildAssistantMessage_fields refused(3))
  next
    case scrape
    have "(case closeFailure browser of Some c \<Rightarrow> c | None \<Rightarrow> m)
        = (case closing of None \<Rightarrow> m | Some c \<Rightarrow> c)"
      by (simp add: scrape(3) split: option.splits)
    then show ?thesis
      using runBridge_scrape_failed [OF assms(1,2) scrape(1,2,4), of model]
      by (simp add: publishError_effects buildAssistantMessage_fields scrape_not_onStream)
  qed
qed

lemma chat_stages:
  "fst (selectPage exampleProvider chatBrowser) = Inr chatPage"
  "fst (injectPrompt exampleProvider chatPage (input (strategyOf exampleProvider chatPage))
         ''hello'') = Inr ()"
  "fst (awaitResponse exampleProvider chatPage (strategyOf exampleProvider chatPage)
         (countAssistantBlocks (document chatPage)
            (assistant (strategyOf exampleProvider chatPage))))
     = Inl ''page.waitForFunction: Timeout 30000ms exceeded.''"
  by (simp_all add: chat_selectPage example_fields chat_detectPlatform chat_injectPrompt
      awaitResponse_times_out chat_timeout)

text \<open>
  The run on the chat page: the prompt is delivered, the first wait fails, the close
  succeeds.
\<close>

theorem failures_become_error_event_witness:
  "extractLatestUserPrompt helloContext = ''hello''
   \<and> throwIfAborted None = Inr ()
   \<and> connectOverCDP chatWorld (cdpUrl exampleProvider) = Inr chatBrowser
   \<and> closeFailure chatBrowser = None
   \<and> fst (selectPage exampleProvider chatBrowser) = Inr chatPage
   \<and> fst (injectPrompt exampleProvider chatPage (input (strategyOf exampleProvider chatPage))
            ''hello'') = Inr ()
   \<and> fst (awaitResponse exampleProvider chatPage (strategyOf exampleProvider chatPage)
            (countAssistantBlocks (document chatPage)
               (assistant (strategyOf exampleProvider chatPage))))
       = Inl ''page.waitForFunction: Timeout 30000ms exceeded.''
   \<and> fst (runBridge chatWorld exampleProvider exampleModel helloContext None) = Inr ()
   \<and> filter onStream (snd (runBridge chatWorld exampleProvider exampleModel helloContext None))
       = [StreamPush (ErrorEvent Error
            (buildAssistantMessage
               ''Browser universal error: page.waitForFunction: Timeout 30000ms exceeded.''
               exampleModel None (Some Error) 7)),
          StreamEnd
            (buildAssistantMessage
               ''Browser universal error: page.waitForFunction: Timeout 30000ms exceeded.''
               exampleModel None (Some Error) 7)]"
proof -
  have p: "extractLatestUserPrompt helloContext = ''hello''" by (rule hello_prompt)
  have a: "throwIfAborted None = Inr ()" by (simp add: throwIfAborted_def)
  have c: "connectOverCDP chatWorld (cdpUrl exampleProvider) = Inr chatBrowser"
    by (simp add: example_fields)
  have f: "closeFailure chatBrowser = None" by (simp add: example_fields)
  have h: "throwIfAborted None = Inl ''page.waitForFunction: Timeout 30000ms exceeded.''
             \<and> None = None
         \<or> throwIfAborted None = Inr ()
           \<and> connectOverCDP chatWorld (cdpUrl exampleProvider)
               = Inl ''page.waitForFunction: Timeout 30000ms exceeded.''
           \<and> None = None
         \<or> throwIfAborted None = Inr ()
           \<and> connectOverCDP chatWorld (cdpUrl exampleProvider) = Inr chatBrowser
           \<and> None = closeFailure chatBrowser
           \<and> (fst (selectPage exampleProvider chatBrowser)
                = Inl ''page.waitForFunction: Timeout 30000ms exceeded.''
              \<or> fst (selectPage exampleProvider chatBrowser) = Inr chatPage
                \<and> (fst (injectPrompt exampleProvider chatPage
                          (input (strategyOf exampleProvider chatPage)) ''hello'')
                     = Inl ''page.waitForFunction: Timeout 30000ms exceeded.''
                   \<or> fst (injectPrompt exampleProvider chatPage
                          (input (strategyOf exampleProvider chatPage)) ''hello'') = Inr ()
                     \<and> fst (awaitResponse exampleProvider chatPage
                              (strategyOf exampleProvider chatPage)
                              (countAssistantBlocks (document chatPage)
                                (assistant (strategyOf exampleProvider chatPage))))
                         = Inl ''page.waitForFunction: Timeout 30000ms exceeded.''))"
    by (simp add: a c f chat_stages)
  have n: "dateNow chatWorld = 7" by (simp add: example_fields)
  from failures_become_error_event [OF p _ h, of exampleModel]
  have "fst (runBridge chatWorld exampleProvider exampleModel helloContext None) = Inr ()
    \<and> filter onStream (snd (runBridge chatWorld exampleProvider exampleModel helloContext None))
       = [StreamPush (ErrorEvent Error
            (buildAssistantMessage
               ''Browser universal error: page.waitForFunction: Timeout 30000ms exceeded.''
               exampleModel None (Some Error) 7)),
          StreamEnd
            (buildAssistantMessage
               ''Browser universal error: page.waitForFunction: Timeout 30000ms exceeded.''
               exampleModel None (Some Error) 7)]"
    unfolding n by simp
  with p a c f chat_stages show ?thesis by (intro conjI) simp_all
qed

text \<open>
  Against claim C3 as worded: the browser of this world has no page, so the selection of
  the page fails with \<open>No open pages found in the connected Chrome instance.\<close>; closing
  the browser then fails with \<open>Target closed\<close>, and the text of the one error event
  carries the diagnostic of the close, not that of the failure.
\<close>

theorem close_failure_replaces_diagnostic_counterexample:
  "extractLatestUserPrompt helloContext = ''hello''
   \<and> throwIfAborted None = Inr ()
   \<and> connectOverCDP stuckWorld (cdpUrl exampleProvider) = Inr stuckBrowser
   \<and> fst (selectPage exampleProvider stuckBrowser)
       = Inl ''No open pages found in the connected Chrome instance.''
   \<and> closeFailure stuckBrowser = Some ''Target closed''
   \<and> filter onStream (snd (runBridge stuckWorld exampleProvider exampleModel helloContext None))
       = [StreamPush (ErrorEvent Error
            (buildAssistantMessage ''Browser universal error: Target closed'' exampleModel None
               (Some Error) 7)),
          StreamEnd
            (buildAssistantMessage ''Browser universal error: Target closed'' exampleModel None
               (Some Error) 7)]
   \<and> msg_content
        (buildAssistantMessage ''Browser universal error: Target closed'' exampleModel None
           (Some Error) 7)
       = [TextItem ''Browser universal error: Target closed'']"
proof -
  have s: "fst (selectPage exampleProvider stuckBrowser)
       = Inl ''No open pages found in the connected Chrome instance.''"
    by (simp add: selectPage_def stuckBrowser_def Let_def step_defs)
  have r: "filter onStream (snd (runBridge stuckWorld exampleProvider exampleModel helloContext None))
       = [StreamPush (ErrorEvent Error
            (buildAssistantMessage ''Browser universal error: Target closed'' exampleModel None
               (Some Error) 7)),
          StreamEnd
            (buildAssistantMessage ''Browser universal error: Target closed'' exampleModel None
               (Some Error) 7)]"
    by (simp add: stuck_run hello_prompt)
  from s r show ?thesis
    by (simp add: hello_prompt throwIfAborted_def example_fields buildAssistantMessage_fields)
qed

subsection \<open>The events of a successful run\<close>



subsection \<open>The model label\<close>







end
